theory Spec2Isabelle
  imports Complex_Main "HOL-Library.Multiset" "HOL-Library.Word"
    "HOL-Library.Char_ord" "HOL-Library.List_Lexorder"
begin

section \<open>The table: data model of \<open>vegaDataframe.h\<close>\<close>

text \<open>
  \<open>enum class DataType { INT, FLOAT, STRING }\<close>. The enumerators compare by their
  position, so \<open>INT < FLOAT < STRING\<close>; \<open>type_rank\<close> is that position. (The
  constructors carry the suffix \<open>_type\<close> because \<open>INT\<close> is reserved syntax of HOL.)
\<close>

datatype DataType = INT_type | FLOAT_type | STRING_type


text \<open>
  The five public members of \<open>class vegaDataframe\<close>. A cell is a \<open>std::string\<close>;
  the empty string is the null cell. \<open>size_t\<close> counts and positions are \<open>nat\<close>.
\<close>

record vegaDataframe =
  data_features :: "string list"
  data_values :: "string list list"
  non_null_counts :: "nat list"
  column_types :: "DataType list"
  null_positions :: "nat list list"

text \<open>
  Every failure of the repository is a \<open>throw std::runtime_error(message)\<close>. The
  constructors below group the messages by the kinds of section 7 of the specification:
  \<^item> \<open>SchemaError\<close>: "Column not found: ...", "Column size does not match number of rows",
    "DataFrames must have same shape for ...";
  \<^item> \<open>IndexError\<close>: "... index out of range", "Insert position out of range";
  \<^item> \<open>TypeError\<close>: "Cannot compute ... for string column";
  \<^item> \<open>StatisticalError\<close>: "No valid values to compute ...",
    "Need at least 2 values to compute standard deviation", "Quantile must be between 0 and 1".

  \<open>UndefinedBehaviour\<close> is not an exception: it marks a path on which the C++ has no
  defined result (an unchecked \<open>operator[]\<close> past the end of a vector, a library
  precondition that does not hold).
\<close>

datatype error = SchemaError | IndexError | TypeError | StatisticalError | UndefinedBehaviour

text \<open>A default-constructed \<open>vegaDataframe\<close>: five empty vectors.\<close>

definition empty_frame :: vegaDataframe where
  "empty_frame =
     \<lparr>data_features = [], data_values = [], non_null_counts = [], column_types = [],
      null_positions = []\<rparr>"

subsection \<open>Helper methods\<close>

text \<open>\<open>std::ranges::find\<close>: the position of the first element equal to \<open>x\<close>.\<close>

fun find_pos :: "'a list \<Rightarrow> 'a \<Rightarrow> nat option" where
  "find_pos [] x = None"
| "find_pos (y # ys) x = (if y = x then Some 0 else map_option Suc (find_pos ys x))"

definition find_column_index :: "vegaDataframe \<Rightarrow> string \<Rightarrow> error + nat" where
  "find_column_index t col_name =
     (case find_pos (data_features t) col_name of
        None \<Rightarrow> Inl SchemaError
      | Some i \<Rightarrow> Inr i)"

text \<open>
  \<open>update_stats_after_modification\<close>. The state of the two nested loops is the pair
  \<open>(non_null_counts, null_positions)\<close>. The inner loop runs while
  \<open>col < column_count && col < data_values[row].size()\<close>, that is over the columns below
  the smaller of the two bounds.
\<close>

definition count_cell ::
  "nat \<Rightarrow> string list \<Rightarrow> nat \<Rightarrow> nat list \<times> nat list list \<Rightarrow> nat list \<times> nat list list" where
  "count_cell row_idx row col s =
     (if row ! col = [] then (fst s, (snd s)[col := snd s ! col @ [row_idx]])
      else ((fst s)[col := Suc (fst s ! col)], snd s))"

definition count_row ::
  "nat \<Rightarrow> nat \<Rightarrow> string list \<Rightarrow> nat list \<times> nat list list \<Rightarrow> nat list \<times> nat list list" where
  "count_row column_count row_idx row s =
     fold (count_cell row_idx row) [0..<min column_count (length row)] s"

fun count_rows ::
  "nat \<Rightarrow> nat \<Rightarrow> string list list \<Rightarrow> nat list \<times> nat list list \<Rightarrow> nat list \<times> nat list list" where
  "count_rows column_count row_idx [] s = s"
| "count_rows column_count row_idx (row # rows) s =
     count_rows column_count (Suc row_idx) rows (count_row column_count row_idx row s)"

definition update_stats_after_modification :: "vegaDataframe \<Rightarrow> vegaDataframe" where
  "update_stats_after_modification t =
     (let column_count = length (data_features t);
          s = count_rows column_count 0 (data_values t)
                (replicate column_count 0, replicate column_count [])
      in t\<lparr>non_null_counts := fst s, null_positions := snd s\<rparr>)"

text \<open>\<open>shape()\<close>: the number of rows and the number of column names.\<close>

definition shape :: "vegaDataframe \<Rightarrow> nat \<times> nat" where
  "shape t = (length (data_values t), length (data_features t))"


section \<open>Join engine: \<open>merge\<close>\<close>

text \<open>
  The cells of a right row that are appended to a left row: every position but the join
  column (single key) or but the join columns (several keys).
\<close>

definition right_cells :: "(nat \<Rightarrow> bool) \<Rightarrow> 'a list \<Rightarrow> 'a list" where
  "right_cells is_key xs = map (\<lambda>i. xs ! i) (filter (\<lambda>i. \<not> is_key i) [0..<length xs])"

definition inner_rows ::
  "nat \<Rightarrow> nat \<Rightarrow> string list list \<Rightarrow> string list list \<Rightarrow> string list list" where
  "inner_rows left_col_idx right_col_idx left_rows right_rows =
     concat (map (\<lambda>left_row.
        if left_col_idx < length left_row then
          concat (map (\<lambda>right_row.
            if right_col_idx < length right_row \<and> right_row ! right_col_idx = left_row ! left_col_idx
            then [left_row @ right_cells (\<lambda>i. i = right_col_idx) right_row]
            else []) right_rows)
        else []) left_rows)"

definition left_rows_joined ::
  "nat \<Rightarrow> nat \<Rightarrow> nat \<Rightarrow> string list list \<Rightarrow> string list list \<Rightarrow> string list list" where
  "left_rows_joined left_col_idx right_col_idx right_width left_rows right_rows =
     concat (map (\<lambda>left_row.
        let join_key = (if left_col_idx < length left_row then left_row ! left_col_idx else []);
            matches = concat (map (\<lambda>right_row.
              if right_col_idx < length right_row \<and> right_row ! right_col_idx = join_key
              then [left_row @ right_cells (\<lambda>i. i = right_col_idx) right_row]
              else []) right_rows)
        in if matches = []
           then [left_row @ right_cells (\<lambda>i. i = right_col_idx) (replicate right_width [])]
           else matches) left_rows)"

text \<open>
  \<open>merge(other, left_col, right_col, how)\<close>. The feature loop drops every right name equal
  to \<open>right_col\<close>; the type loop drops position \<open>right_col_idx\<close>. Any \<open>how\<close> other than
  "inner" and "left" adds no row.
\<close>

definition merge ::
  "vegaDataframe \<Rightarrow> vegaDataframe \<Rightarrow> string \<Rightarrow> string \<Rightarrow> string \<Rightarrow> error + vegaDataframe" where
  "merge t other left_col right_col how =
     (case find_column_index t left_col of
        Inl e \<Rightarrow> Inl e
      | Inr left_col_idx \<Rightarrow>
     (case find_column_index other right_col of
        Inl e \<Rightarrow> Inl e
      | Inr right_col_idx \<Rightarrow>
          Inr (update_stats_after_modification
            (empty_frame\<lparr>
               data_features :=
                 data_features t @ filter (\<lambda>feature. feature \<noteq> right_col) (data_features other),
               column_types :=
                 column_types t @ right_cells (\<lambda>i. i = right_col_idx) (column_types other),
               data_values :=
                 (if how = ''inner'' then
                    inner_rows left_col_idx right_col_idx (data_values t) (data_values other)
                  else if how = ''left'' then
                    left_rows_joined left_col_idx right_col_idx (length (data_features other))
                      (data_values t) (data_values other)
                  else [])\<rparr>))))"

text \<open>The key of a row over a list of column positions; a missing cell reads as "".\<close>

definition row_key :: "nat list \<Rightarrow> string list \<Rightarrow> string list" where
  "row_key col_indices row =
     map (\<lambda>col_idx. if col_idx < length row then row ! col_idx else []) col_indices"

text \<open>Looking up a list of names, stopping at the first one that is missing.\<close>

fun find_column_indices :: "vegaDataframe \<Rightarrow> string list \<Rightarrow> error + nat list" where
  "find_column_indices t [] = Inr []"
| "find_column_indices t (col_name # col_names) =
     (case find_column_index t col_name of
        Inl e \<Rightarrow> Inl e
      | Inr i \<Rightarrow>
          (case find_column_indices t col_names of
             Inl e \<Rightarrow> Inl e
           | Inr is \<Rightarrow> Inr (i # is)))"

text \<open>
  \<open>merge(other, on, how)\<close>, named \<open>merge_on\<close> here: each name of \<open>on\<close> is looked up on
  the left, then on the right, before the next name. Only "inner" adds rows.
\<close>

fun find_both :: "vegaDataframe \<Rightarrow> vegaDataframe \<Rightarrow> string list \<Rightarrow> error + (nat list \<times> nat list)" where
  "find_both t other [] = Inr ([], [])"
| "find_both t other (col_name # col_names) =
     (case find_column_index t col_name of
        Inl e \<Rightarrow> Inl e
      | Inr l \<Rightarrow>
     (case find_column_index other col_name of
        Inl e \<Rightarrow> Inl e
      | Inr r \<Rightarrow>
     (case find_both t other col_names of
        Inl e \<Rightarrow> Inl e
      | Inr (ls, rs) \<Rightarrow> Inr (l # ls, r # rs))))"

definition merge_on ::
  "vegaDataframe \<Rightarrow> vegaDataframe \<Rightarrow> string list \<Rightarrow> string \<Rightarrow> error + vegaDataframe" where
  "merge_on t other on how =
     (case find_both t other on of
        Inl e \<Rightarrow> Inl e
      | Inr (left_col_indices, right_col_indices) \<Rightarrow>
          Inr (update_stats_after_modification
            (empty_frame\<lparr>
               data_features :=
                 data_features t
                   @ right_cells (\<lambda>i. i \<in> set right_col_indices) (data_features other),
               column_types :=
                 column_types t
                   @ right_cells (\<lambda>i. i \<in> set right_col_indices) (column_types other),
               data_values :=
                 (if how = ''inner'' then
                    concat (map (\<lambda>left_row.
                      concat (map (\<lambda>right_row.
                        if row_key left_col_indices left_row = row_key right_col_indices right_row
                        then [left_row @ right_cells (\<lambda>i. i \<in> set right_col_indices) right_row]
                        else []) (data_values other))) (data_values t))
                  else [])\<rparr>)))"

section \<open>Numbers: \<open>double\<close> and the text parsers of the standard library\<close>

text \<open>
  A \<open>double\<close> is a finite value, one of the two infinities, or NaN. Finite arithmetic is
  exact here: rounding, overflow of a finite result to an infinity and the sign of zero
  are not modelled. The special values follow IEEE 754: an operation on NaN gives NaN,
  \<open>inf - inf\<close>, \<open>0 * inf\<close>, \<open>0 / 0\<close> and \<open>inf / inf\<close> give NaN, and every comparison with
  NaN is false.
\<close>

datatype double = NaN | NegInf | Fin real | PosInf

fun dless :: "double \<Rightarrow> double \<Rightarrow> bool" where
  "dless (Fin a) (Fin b) = (a < b)"
| "dless NegInf (Fin b) = True"
| "dless NegInf PosInf = True"
| "dless (Fin a) PosInf = True"
| "dless _ _ = False"


fun dadd :: "double \<Rightarrow> double \<Rightarrow> double" where
  "dadd (Fin a) (Fin b) = Fin (a + b)"
| "dadd NaN _ = NaN"
| "dadd _ NaN = NaN"
| "dadd PosInf NegInf = NaN"
| "dadd NegInf PosInf = NaN"
| "dadd PosInf _ = PosInf"
| "dadd _ PosInf = PosInf"
| "dadd NegInf _ = NegInf"
| "dadd _ NegInf = NegInf"


text \<open>\<open>negative x\<close>: the sign of a value that is not NaN, zero counting as positive.\<close>

fun negative :: "double \<Rightarrow> bool" where
  "negative NegInf = True"
| "negative (Fin a) = (a < 0)"
| "negative _ = False"

definition signed_inf :: "bool \<Rightarrow> double" where
  "signed_inf neg = (if neg then NegInf else PosInf)"

fun dmul :: "double \<Rightarrow> double \<Rightarrow> double" where
  "dmul (Fin a) (Fin b) = Fin (a * b)"
| "dmul NaN _ = NaN"
| "dmul _ NaN = NaN"
| "dmul a b =
     (if a = Fin 0 \<or> b = Fin 0 then NaN else signed_inf (negative a \<noteq> negative b))"

fun ddiv :: "double \<Rightarrow> double \<Rightarrow> double" where
  "ddiv (Fin a) (Fin b) =
     (if b \<noteq> 0 then Fin (a / b) else if a = 0 then NaN else signed_inf (a < 0))"
| "ddiv NaN _ = NaN"
| "ddiv _ NaN = NaN"
| "ddiv (Fin a) _ = Fin 0"
| "ddiv a (Fin b) = signed_inf (negative a \<noteq> (b < 0))"
| "ddiv _ _ = NaN"



text \<open>
  \<open>std::numeric_limits<double>::max()\<close>, the largest finite double
  \<open>(2 - 2\<^sup>-\<^sup>5\<^sup>2) * 2\<^sup>1\<^sup>0\<^sup>2\<^sup>3\<close>; \<open>lowest()\<close> is its negation.
\<close>

definition DBL_MAX :: real where
  "DBL_MAX = (2 ^ 53 - 1) * 2 ^ 971"

text \<open>\<open>std::min(a, b)\<close> is \<open>(b < a) ? b : a\<close>; \<open>std::max(a, b)\<close> is \<open>(a < b) ? b : a\<close>.\<close>

definition std_min :: "double \<Rightarrow> double \<Rightarrow> double" where
  "std_min a b = (if dless b a then b else a)"

definition std_max :: "double \<Rightarrow> double \<Rightarrow> double" where
  "std_max a b = (if dless a b then b else a)"

text \<open>
  \<open>std::stod\<close> belongs to the standard library, not to the repository: the operations
  below take it as the parameter \<open>stod\<close>, \<open>None\<close> standing for a throw
  (\<open>std::invalid_argument\<close>, \<open>std::out_of_range\<close>). \<open>safe_stod\<close> is the repository's
  wrapper, with its default \<open>default_val = 0.0\<close>.
\<close>

definition safe_stod :: "(string \<Rightarrow> double option) \<Rightarrow> string \<Rightarrow> double" where
  "safe_stod stod str = (case stod str of Some v \<Rightarrow> v | None \<Rightarrow> Fin 0)"

text \<open>
  \<open>plain_stod\<close> is \<open>std::stod\<close> on the spellings the examples of this theory use: decimal
  digits with an optional minus sign (exact doubles below \<open>2\<^sup>5\<^sup>3\<close>), \<open>inf\<close>, \<open>-inf\<close> and
  \<open>nan\<close>. It parses no other text and is used at these spellings, and at text that
  starts with no number, only.
\<close>

definition digit_of :: "char \<Rightarrow> nat option" where
  "digit_of c =
     (let code = (of_char c :: nat) in if 48 \<le> code \<and> code \<le> 57 then Some (code - 48) else None)"

fun digits_value :: "nat \<Rightarrow> string \<Rightarrow> nat option" where
  "digits_value acc [] = Some acc"
| "digits_value acc (c # cs) =
     (case digit_of c of None \<Rightarrow> None | Some d \<Rightarrow> digits_value (10 * acc + d) cs)"

definition decimal_value :: "string \<Rightarrow> int option" where
  "decimal_value s =
     (case s of
        [] \<Rightarrow> None
      | c # cs \<Rightarrow>
          if c = CHR ''-'' then
            (if cs = [] then None else map_option (\<lambda>n. - int n) (digits_value 0 cs))
          else map_option int (digits_value 0 s))"

definition plain_stod :: "string \<Rightarrow> double option" where
  "plain_stod s =
     (if s = ''inf'' then Some PosInf
      else if s = ''-inf'' then Some NegInf
      else if s = ''nan'' then Some NaN
      else map_option (\<lambda>i. Fin (real_of_int i)) (decimal_value s))"

section \<open>Statistics engine\<close>

text \<open>
  Every statistical scan has the same loop body:
  \<^verbatim>\<open>if (col_idx < row.size() && !row[col_idx].empty()) { try { ... std::stod(row[col_idx]) ... } catch (...) {} }\<close>
  \<open>parsed_cell\<close> is the value the body works on, \<open>None\<close> when the guard fails or
  \<open>std::stod\<close> throws, in which case the accumulators keep their values. (The
  accumulators \<open>sum\<close> and \<open>count\<close> are \<open>sum_val\<close> and \<open>count_val\<close> below.)
\<close>

definition parsed_cell :: "(string \<Rightarrow> double option) \<Rightarrow> nat \<Rightarrow> string list \<Rightarrow> double option" where
  "parsed_cell stod col_idx row =
     (if col_idx < length row \<and> row ! col_idx \<noteq> [] then stod (row ! col_idx) else None)"

definition scan :: "(string \<Rightarrow> double option) \<Rightarrow> nat \<Rightarrow> (double \<Rightarrow> 'a \<Rightarrow> 'a) \<Rightarrow> string list list \<Rightarrow> 'a \<Rightarrow> 'a" where
  "scan stod col_idx body rows init =
     fold (\<lambda>row acc. case parsed_cell stod col_idx row of None \<Rightarrow> acc | Some v \<Rightarrow> body v acc)
       rows init"

text \<open>The vector \<open>values\<close> that \<open>median\<close> and \<open>quantile\<close> collect with \<open>push_back\<close>.\<close>

definition valid_values :: "(string \<Rightarrow> double option) \<Rightarrow> nat \<Rightarrow> string list list \<Rightarrow> double list" where
  "valid_values stod col_idx rows = scan stod col_idx (\<lambda>v values. values @ [v]) rows []"

text \<open>
  The common prologue: \<open>find_column_index\<close>, then the test of \<open>column_types[col_idx]\<close>
  (an unchecked read), which refuses a STRING column.
\<close>

definition numeric_column :: "vegaDataframe \<Rightarrow> string \<Rightarrow> error + nat" where
  "numeric_column t col_name =
     (case find_column_index t col_name of
        Inl e \<Rightarrow> Inl e
      | Inr col_idx \<Rightarrow>
          if length (column_types t) \<le> col_idx then Inl UndefinedBehaviour
          else if column_types t ! col_idx = STRING_type then Inl TypeError
          else Inr col_idx)"


text \<open>
  \<open>std::ranges::sort\<close> on doubles. With a NaN among the values the comparison is no
  strict weak order and the call has no defined result; otherwise the result is the
  ascending arrangement, computed here by insertion.
\<close>

fun dinsert :: "double \<Rightarrow> double list \<Rightarrow> double list" where
  "dinsert x [] = [x]"
| "dinsert x (y # ys) = (if dless y x then y # dinsert x ys else x # y # ys)"

definition dsort :: "double list \<Rightarrow> double list" where
  "dsort xs = foldr dinsert xs []"

definition ranges_sort :: "double list \<Rightarrow> error + double list" where
  "ranges_sort xs = (if NaN \<in> set xs then Inl UndefinedBehaviour else Inr (dsort xs))"



text \<open>
  \<open>min\<close> and \<open>max\<close>, named \<open>min_col\<close> and \<open>max_col\<close> here. The search starts from
  \<open>std::numeric_limits<double>::max()\<close> and from \<open>lowest()\<close>.
\<close>

definition min_col :: "(string \<Rightarrow> double option) \<Rightarrow> vegaDataframe \<Rightarrow> string \<Rightarrow> error + double" where
  "min_col stod t col_name =
     (case numeric_column t col_name of
        Inl e \<Rightarrow> Inl e
      | Inr col_idx \<Rightarrow>
          (case scan stod col_idx (\<lambda>val (min_val, found). (std_min min_val val, True))
                  (data_values t) (Fin DBL_MAX, False) of
             (min_val, found) \<Rightarrow> if \<not> found then Inl StatisticalError else Inr min_val))"

definition max_col :: "(string \<Rightarrow> double option) \<Rightarrow> vegaDataframe \<Rightarrow> string \<Rightarrow> error + double" where
  "max_col stod t col_name =
     (case numeric_column t col_name of
        Inl e \<Rightarrow> Inl e
      | Inr col_idx \<Rightarrow>
          (case scan stod col_idx (\<lambda>val (max_val, found). (std_max max_val val, True))
                  (data_values t) (Fin (- DBL_MAX), False) of
             (max_val, found) \<Rightarrow> if \<not> found then Inl StatisticalError else Inr max_val))"

text \<open>
  One pass of the loop of \<open>quantile\<close> over \<open>q\<close>, on the sorted values. A quantile that
  passes the range test is a finite number of \<open>[0, 1]\<close> or NaN; with NaN the conversion of
  \<open>std::floor(pos)\<close> to \<open>size_t\<close> has no defined result. \<open>pos\<close> lies in
  \<open>[0, values.size() - 1]\<close>, so both reads are in range.
\<close>

definition quantile_at :: "double list \<Rightarrow> double \<Rightarrow> error + double" where
  "quantile_at sorted_values quantile =
     (if dless quantile (Fin 0) \<or> dless (Fin 1) quantile then Inl StatisticalError
      else
        (case quantile of
           Fin q \<Rightarrow>
             let pos = q * real (length sorted_values - 1);
                 lower = nat \<lfloor>pos\<rfloor>;
                 upper = nat \<lceil>pos\<rceil>
             in if lower = upper then Inr (sorted_values ! lower)
                else
                  let weight = pos - real lower
                  in Inr (dadd (dmul (sorted_values ! lower) (Fin (1 - weight)))
                               (dmul (sorted_values ! upper) (Fin weight)))
         | _ \<Rightarrow> Inl UndefinedBehaviour))"

fun quantile_loop :: "double list \<Rightarrow> double list \<Rightarrow> error + double list" where
  "quantile_loop sorted_values [] = Inr []"
| "quantile_loop sorted_values (quantile # q) =
     (case quantile_at sorted_values quantile of
        Inl e \<Rightarrow> Inl e
      | Inr r \<Rightarrow>
          (case quantile_loop sorted_values q of
             Inl e \<Rightarrow> Inl e
           | Inr result \<Rightarrow> Inr (r # result)))"

definition quantile ::
  "(string \<Rightarrow> double option) \<Rightarrow> vegaDataframe \<Rightarrow> string \<Rightarrow> double list \<Rightarrow> error + double list" where
  "quantile stod t col_name q =
     (case numeric_column t col_name of
        Inl e \<Rightarrow> Inl e
      | Inr col_idx \<Rightarrow>
          let values = valid_values stod col_idx (data_values t) in
          if values = [] then Inl StatisticalError
          else
            (case ranges_sort values of
               Inl e \<Rightarrow> Inl e
             | Inr sorted_values \<Rightarrow> quantile_loop sorted_values q))"

section \<open>Schema index: type inference and \<open>add_column\<close>\<close>




text \<open>A loop whose body can leave the defined behaviour: the first failure ends it.\<close>

fun fold_err :: "('a \<Rightarrow> 's \<Rightarrow> error + 's) \<Rightarrow> 'a list \<Rightarrow> 's \<Rightarrow> error + 's" where
  "fold_err f [] s = Inr s"
| "fold_err f (x # xs) s = (case f x s of Inl e \<Rightarrow> Inl e | Inr s' \<Rightarrow> fold_err f xs s')"

fun collect :: "(error + 'a) list \<Rightarrow> error + 'a list" where
  "collect [] = Inr []"
| "collect (r # rs) =
     (case r of
        Inl e \<Rightarrow> Inl e
      | Inr x \<Rightarrow> (case collect rs of Inl e \<Rightarrow> Inl e | Inr xs \<Rightarrow> Inr (x # xs)))"

text \<open>
  \<open>add_column\<close>. After the four \<open>push_back\<close>s, \<open>col_idx = data_features.size() - 1\<close> is the
  old number of column names. The loop appends \<open>values[i]\<close> to row \<open>i\<close> and updates
  \<open>null_positions[col_idx]\<close> or \<open>non_null_counts[col_idx]\<close>, an unchecked access when
  those vectors are shorter than the column list. The recorded type of the new column is
  the constant \<open>DataType::STRING\<close>. (The parameter \<open>values\<close> is \<open>vals\<close> here.)
\<close>

definition add_column_cell ::
  "nat \<Rightarrow> nat \<times> string \<Rightarrow> nat list \<times> nat list list \<Rightarrow> error + nat list \<times> nat list list" where
  "add_column_cell col_idx iv s =
     (if snd iv = [] then
        (if col_idx < length (snd s)
         then Inr (fst s, (snd s)[col_idx := snd s ! col_idx @ [fst iv]])
         else Inl UndefinedBehaviour)
      else
        (if col_idx < length (fst s)
         then Inr ((fst s)[col_idx := Suc (fst s ! col_idx)], snd s)
         else Inl UndefinedBehaviour))"

definition add_column :: "vegaDataframe \<Rightarrow> string \<Rightarrow> string list \<Rightarrow> error + vegaDataframe" where
  "add_column t col_name vals =
     (if length vals \<noteq> length (data_values t) then Inl SchemaError
      else
        (case fold_err (add_column_cell (length (data_features t))) (enumerate 0 vals)
                (non_null_counts t @ [0], null_positions t @ [[]]) of
           Inl e \<Rightarrow> Inl e
         | Inr s \<Rightarrow>
             Inr \<lparr>data_features = data_features t @ [col_name],
                  data_values = map (\<lambda>(row, v). row @ [v]) (zip (data_values t) vals),
                  non_null_counts = fst s,
                  column_types = column_types t @ [STRING_type],
                  null_positions = snd s\<rparr>))"





section \<open>Aggregation: \<open>groupby\<close>\<close>

text \<open>
  A \<open>std::map\<close> is an association list in ascending key order. \<open>map_apply k f fresh m\<close> is
  \<open>f(m[k])\<close> in place: the entry of \<open>k\<close> is updated, or created from \<open>fresh\<close> at its place.
  Strings and vectors of strings compare lexicographically, as \<open>std::less\<close> does.
\<close>

fun map_apply :: "'k::linorder \<Rightarrow> ('v \<Rightarrow> 'v) \<Rightarrow> 'v \<Rightarrow> ('k \<times> 'v) list \<Rightarrow> ('k \<times> 'v) list" where
  "map_apply k f fresh [] = [(k, f fresh)]"
| "map_apply k f fresh ((k', v) # m) =
     (if k = k' then (k', f v) # m
      else if k < k' then (k, f fresh) # (k', v) # m
      else (k', v) # map_apply k f fresh m)"

text \<open>A new group carries the schema; each row of the group is appended to it.\<close>

definition new_group :: "vegaDataframe \<Rightarrow> vegaDataframe" where
  "new_group t = empty_frame\<lparr>data_features := data_features t, column_types := column_types t\<rparr>"

definition push_row :: "string list \<Rightarrow> vegaDataframe \<Rightarrow> vegaDataframe" where
  "push_row row g = g\<lparr>data_values := data_values g @ [row]\<rparr>"

definition refresh_groups :: "('k \<times> vegaDataframe) list \<Rightarrow> ('k \<times> vegaDataframe) list" where
  "refresh_groups groups = map (\<lambda>(k, g). (k, update_stats_after_modification g)) groups"

text \<open>\<open>groupby(const std::string&)\<close>: a row enters a group only under \<open>col_idx < row.size()\<close>.\<close>

definition groupby :: "vegaDataframe \<Rightarrow> string \<Rightarrow> error + (string \<times> vegaDataframe) list" where
  "groupby t col_name =
     (case find_column_index t col_name of
        Inl e \<Rightarrow> Inl e
      | Inr col_idx \<Rightarrow>
          Inr (refresh_groups
            (fold (\<lambda>row groups.
               if col_idx < length row
               then map_apply (row ! col_idx) (push_row row) (new_group t) groups
               else groups) (data_values t) [])))"

text \<open>
  \<open>groupby(const std::vector<std::string>&)\<close>, named \<open>groupby_multi\<close> here: the key reads
  a missing cell as "", and every row enters a group.
\<close>

definition groupby_multi ::
  "vegaDataframe \<Rightarrow> string list \<Rightarrow> error + (string list \<times> vegaDataframe) list" where
  "groupby_multi t col_names =
     (case find_column_indices t col_names of
        Inl e \<Rightarrow> Inl e
      | Inr col_indices \<Rightarrow>
          Inr (refresh_groups
            (fold (\<lambda>row groups.
               map_apply (row_key col_indices row) (push_row row) (new_group t) groups)
               (data_values t) [])))"

text \<open>The multiset union of the rows of all groups.\<close>

definition group_rows :: "('k \<times> vegaDataframe) list \<Rightarrow> string list multiset" where
  "group_rows groups = sum_list (map (\<lambda>(k, g). mset (data_values g)) groups)"

section \<open>Duplicate handling\<close>

text \<open>
  The forward pass of \<open>duplicated\<close> over the keys of the rows: a key already in
  \<open>seen_combinations\<close> marks its row, a new key is inserted.
\<close>

fun dup_scan :: "string list set \<Rightarrow> string list list \<Rightarrow> bool list" where
  "dup_scan seen [] = []"
| "dup_scan seen (key # keys) =
     (if key \<in> seen then True # dup_scan seen keys
      else False # dup_scan (insert key seen) keys)"

text \<open>
  \<open>duplicated\<close>. With \<open>keep_first = false\<close> the marks are reset and the rows are visited
  from \<open>static_cast<int>(data_values.size()) - 1\<close> down to 0; the cast to the 32-bit \<open>int\<close>
  is modelled, the rows it leaves out keep the mark \<open>false\<close>. (The parameter
  \<open>subset\<close> is \<open>subset_names\<close> here.)
\<close>

definition check_columns_of :: "vegaDataframe \<Rightarrow> string list \<Rightarrow> error + nat list" where
  "check_columns_of t subset_names =
     (if subset_names = [] then Inr [0..<length (data_features t)] else find_column_indices t subset_names)"

definition duplicated :: "vegaDataframe \<Rightarrow> string list \<Rightarrow> bool \<Rightarrow> error + bool list" where
  "duplicated t subset_names keep_first =
     (case check_columns_of t subset_names of
        Inl e \<Rightarrow> Inl e
      | Inr check_columns \<Rightarrow>
          let keys = map (row_key check_columns) (data_values t) in
          if keep_first then Inr (dup_scan {} keys)
          else
            let m = sint (word_of_nat (length (data_values t)) :: 32 word) in
            if m = - (2 ^ 31) then Inl UndefinedBehaviour
            else
              let visited = nat m
              in Inr (rev (dup_scan {} (rev (take visited keys)))
                      @ replicate (length (data_values t) - visited) False))"

definition drop_duplicates :: "vegaDataframe \<Rightarrow> string list \<Rightarrow> bool \<Rightarrow> error + vegaDataframe" where
  "drop_duplicates t subset_names keep_first =
     (case duplicated t subset_names keep_first of
        Inl e \<Rightarrow> Inl e
      | Inr duplicate_mask \<Rightarrow>
          Inr (update_stats_after_modification
            (empty_frame\<lparr>
               data_features := data_features t,
               column_types := column_types t,
               data_values :=
                 map fst (filter (\<lambda>(row, dup). \<not> dup) (zip (data_values t) duplicate_mask))\<rparr>)))"

section \<open>Transform engine: \<open>divide\<close> and the comparisons\<close>

text \<open>
  One cell of \<open>divide\<close>. The condition is
  \<open>j < other.data_values[i].size() && column_types[j] != STRING && other.column_types[j] != STRING\<close>,
  evaluated left to right with unchecked reads of the two type vectors. \<open>std::to_string\<close>
  is the library's and is the parameter \<open>to_string\<close>. Neither \<open>safe_stod\<close> nor
  \<open>std::to_string\<close> throws, so the \<open>catch\<close> branch is never taken.
\<close>

definition both_numeric ::
  "vegaDataframe \<Rightarrow> vegaDataframe \<Rightarrow> string list \<Rightarrow> nat \<Rightarrow> error + bool" where
  "both_numeric t other other_row j =
     (if \<not> j < length other_row then Inr False
      else if length (column_types t) \<le> j then Inl UndefinedBehaviour
      else if column_types t ! j = STRING_type then Inr False
      else if length (column_types other) \<le> j then Inl UndefinedBehaviour
      else Inr (column_types other ! j \<noteq> STRING_type))"

definition divide_cell ::
  "(string \<Rightarrow> double option) \<Rightarrow> (double \<Rightarrow> string) \<Rightarrow> vegaDataframe \<Rightarrow> vegaDataframe \<Rightarrow>
   string list \<Rightarrow> string list \<Rightarrow> nat \<Rightarrow> error + string" where
  "divide_cell stod to_string t other row other_row j =
     (case both_numeric t other other_row j of
        Inl e \<Rightarrow> Inl e
      | Inr False \<Rightarrow> Inr (row ! j)
      | Inr True \<Rightarrow>
          let val1 = safe_stod stod (row ! j);
              val2 = safe_stod stod (other_row ! j)
          in if val2 \<noteq> Fin 0 then Inr (to_string (ddiv val1 val2)) else Inr ''inf'')"

definition divide ::
  "(string \<Rightarrow> double option) \<Rightarrow> (double \<Rightarrow> string) \<Rightarrow> vegaDataframe \<Rightarrow> vegaDataframe \<Rightarrow>
   error + vegaDataframe" where
  "divide stod to_string t other =
     (if shape t \<noteq> shape other then Inl SchemaError
      else
        (case collect (map (\<lambda>(row, other_row).
                 collect (map (divide_cell stod to_string t other row other_row) [0..<length row]))
               (zip (data_values t) (data_values other))) of
           Inl e \<Rightarrow> Inl e
         | Inr rows \<Rightarrow> Inr (t\<lparr>data_values := rows\<rparr>)))"

text \<open>\<open>eq\<close>: a cell without a partner on the right compares \<open>false\<close>.\<close>

definition eq :: "vegaDataframe \<Rightarrow> vegaDataframe \<Rightarrow> error + bool list list" where
  "eq t other =
     (if shape t \<noteq> shape other then Inl SchemaError
      else Inr (map (\<lambda>(row, other_row).
                  map (\<lambda>j. if j < length other_row then row ! j = other_row ! j else False)
                    [0..<length row])
                (zip (data_values t) (data_values other))))"

text \<open>
  \<open>lt\<close>: numeric comparison under the condition of \<open>divide\<close>, and otherwise the
  comparison of the two strings, which reads \<open>other.data_values[i][j]\<close> unchecked.
\<close>

definition lt_cell ::
  "(string \<Rightarrow> double option) \<Rightarrow> vegaDataframe \<Rightarrow> vegaDataframe \<Rightarrow>
   string list \<Rightarrow> string list \<Rightarrow> nat \<Rightarrow> error + bool" where
  "lt_cell stod t other row other_row j =
     (case both_numeric t other other_row j of
        Inl e \<Rightarrow> Inl e
      | Inr True \<Rightarrow> Inr (dless (safe_stod stod (row ! j)) (safe_stod stod (other_row ! j)))
      | Inr False \<Rightarrow>
          if j < length other_row then Inr (row ! j < other_row ! j)
          else Inl UndefinedBehaviour)"

definition lt ::
  "(string \<Rightarrow> double option) \<Rightarrow> vegaDataframe \<Rightarrow> vegaDataframe \<Rightarrow> error + bool list list" where
  "lt stod t other =
     (if shape t \<noteq> shape other then Inl SchemaError
      else collect (map (\<lambda>(row, other_row).
                      collect (map (lt_cell stod t other row other_row) [0..<length row]))
                    (zip (data_values t) (data_values other))))"

definition le ::
  "(string \<Rightarrow> double option) \<Rightarrow> vegaDataframe \<Rightarrow> vegaDataframe \<Rightarrow> error + bool list list" where
  "le stod t other =
     (case lt stod t other of
        Inl e \<Rightarrow> Inl e
      | Inr lt_result \<Rightarrow>
          (case eq t other of
             Inl e \<Rightarrow> Inl e
           | Inr eq_result \<Rightarrow>
               Inr (map (\<lambda>(lt_row, eq_row). map (\<lambda>j. lt_row ! j \<or> eq_row ! j) [0..<length lt_row])
                      (zip lt_result eq_result))))"

text \<open>
  The loops of \<open>ne\<close>, \<open>gt\<close> and \<open>ge\<close>:
  \<^verbatim>\<open>for (auto& row : result) { for (auto val : row) { val = !val; } }\<close>
  \<open>row\<close> is a \<open>std::vector<bool>\<close>. Its iterator does not yield \<open>bool&\<close> but the proxy class
  \<open>std::vector<bool>::reference\<close>, so \<open>auto val\<close> is a copy of the proxy, not of the
  boolean, and \<open>val = !val\<close> calls \<open>reference::operator=(bool)\<close>, which writes the bit of
  the vector. The loop therefore negates element \<open>j\<close> in place, for each \<open>j\<close> in turn.
\<close>

definition negate_row :: "bool list \<Rightarrow> bool list" where
  "negate_row row = fold (\<lambda>j r. r[j := \<not> r ! j]) [0..<length row] row"

definition negate_all :: "bool list list \<Rightarrow> bool list list" where
  "negate_all result = map negate_row result"

definition ne :: "vegaDataframe \<Rightarrow> vegaDataframe \<Rightarrow> error + bool list list" where
  "ne t other = (case eq t other of Inl e \<Rightarrow> Inl e | Inr eq_result \<Rightarrow> Inr (negate_all eq_result))"

definition gt ::
  "(string \<Rightarrow> double option) \<Rightarrow> vegaDataframe \<Rightarrow> vegaDataframe \<Rightarrow> error + bool list list" where
  "gt stod t other =
     (case le stod t other of Inl e \<Rightarrow> Inl e | Inr le_result \<Rightarrow> Inr (negate_all le_result))"

definition ge ::
  "(string \<Rightarrow> double option) \<Rightarrow> vegaDataframe \<Rightarrow> vegaDataframe \<Rightarrow> error + bool list list" where
  "ge stod t other =
     (case lt stod t other of Inl e \<Rightarrow> Inl e | Inr lt_result \<Rightarrow> Inr (negate_all lt_result))"

section \<open>Relational operators: \<open>sample\<close>\<close>

text \<open>
  The random source is a parameter: \<open>draw i\<close> is the entropy the generator hands to the
  \<open>i\<close>-th call \<open>dis(gen)\<close>, and \<open>shuffle\<close> is the permutation \<open>std::ranges::shuffle\<close> applies.
  \<open>std::uniform_int_distribution<>\<close> is a distribution of \<open>int\<close>: its bounds are
  \<open>0\<close> and \<open>data_values.size() - 1\<close> converted from \<open>size_t\<close> to the 32-bit \<open>int\<close>. It
  requires \<open>a \<le> b\<close> and returns a value of \<open>[a, b]\<close>; every value of the range is the
  result for some entropy.
\<close>

definition uniform_int :: "int \<Rightarrow> int \<Rightarrow> nat \<Rightarrow> int" where
  "uniform_int a b entropy = a + int (entropy mod nat (b - a + 1))"

definition read_row :: "string list list \<Rightarrow> nat \<Rightarrow> error + string list" where
  "read_row rows idx = (if idx < length rows then Inr (rows ! idx) else Inl UndefinedBehaviour)"

definition sample ::
  "(nat \<Rightarrow> nat) \<Rightarrow> (nat list \<Rightarrow> nat list) \<Rightarrow> vegaDataframe \<Rightarrow> nat \<Rightarrow> bool \<Rightarrow> error + vegaDataframe" where
  "sample draw shuffle t n replace =
     (if length (data_values t) \<le> n \<and> \<not> replace then Inr t
      else
        (case
           (if replace then
              let hi = sint (word_of_int (int (length (data_values t)) - 1) :: 32 word) in
              if hi < 0 then Inl UndefinedBehaviour
              else collect (map (\<lambda>i. read_row (data_values t) (nat (uniform_int 0 hi (draw i))))
                              [0..<n])
            else
              let indices = shuffle [0..<length (data_values t)] in
              collect (map (\<lambda>i. if i < length indices then read_row (data_values t) (indices ! i)
                                 else Inl UndefinedBehaviour) [0..<n]))
         of
           Inl e \<Rightarrow> Inl e
         | Inr picked \<Rightarrow>
             Inr (update_stats_after_modification
               (empty_frame\<lparr>
                  data_features := data_features t,
                  column_types := column_types t,
                  data_values := picked\<rparr>))))"

section \<open>Auxiliary notions of the statements\<close>

text \<open>
  \<open>tally s c\<close> is \<open>non_null_counts[c] + null_positions[c].size()\<close> in a state of the
  refresh loops. Each visited cell adds one to the tally of its column and leaves the
  other columns alone.
\<close>

definition tally :: "nat list \<times> nat list list \<Rightarrow> nat \<Rightarrow> nat" where
  "tally s c = fst s ! c + length (snd s ! c)"

text \<open>
  \<open>validate_dataframe\<close>, as the condition under which it does not throw: as many recorded
  types as column names, and no row longer than the column list.
\<close>

definition validate_dataframe :: "vegaDataframe \<Rightarrow> bool" where
  "validate_dataframe t \<longleftrightarrow>
     length (data_features t) = length (column_types t)
     \<and> (\<forall>row \<in> set (data_values t). \<not> length (data_features t) < length row)"

text \<open>
  \<open>plain_to_string\<close> is \<open>std::to_string\<close> on the values the examples use: a whole,
  non-negative double below \<open>2\<^sup>5\<^sup>3\<close> prints as its decimal digits followed by a point
  and six zeros (the format \<open>%f\<close>). Used at such values only.
\<close>

fun digits_of :: "nat \<Rightarrow> string" where
  "digits_of n =
     (if n < 10 then [''0123456789'' ! n]
      else digits_of (n div 10) @ [''0123456789'' ! (n mod 10)])"

definition plain_to_string :: "double \<Rightarrow> string" where
  "plain_to_string d = (case d of Fin x \<Rightarrow> digits_of (nat \<lfloor>x\<rfloor>) @ ''.000000'' | _ \<Rightarrow> [])"

section \<open>Properties of the join engine\<close>

text \<open>
  Claim C5. The table A has the columns key, v1 and the rows [k, 1], [k, 2]; the table B
  has the columns key, v2 and the row [k, 9]. Merging A with B on key with how = "inner"
  gives the columns key, v1, v2 and exactly the rows [k, 1, 9] and [k, 2, 9], in that
  order. This holds for the overload with one left and one right column name and for
  the overload with a list of names, whatever types and statistics the two tables record.
\<close>

theorem merge_inner_scenario:
  "(\<exists>r. merge
          \<lparr>data_features = [''key'', ''v1''], data_values = [[''k'', ''1''], [''k'', ''2'']],
           non_null_counts = nn_a, column_types = types_a, null_positions = np_a\<rparr>
          \<lparr>data_features = [''key'', ''v2''], data_values = [[''k'', ''9'']],
           non_null_counts = nn_b, column_types = types_b, null_positions = np_b\<rparr>
          ''key'' ''key'' ''inner'' = Inr r
        \<and> data_features r = [''key'', ''v1'', ''v2'']
        \<and> data_values r = [[''k'', ''1'', ''9''], [''k'', ''2'', ''9'']])
   \<and> (\<exists>r. merge_on
          \<lparr>data_features = [''key'', ''v1''], data_values = [[''k'', ''1''], [''k'', ''2'']],
           non_null_counts = nn_a, column_types = types_a, null_positions = np_a\<rparr>
          \<lparr>data_features = [''key'', ''v2''], data_values = [[''k'', ''9'']],
           non_null_counts = nn_b, column_types = types_b, null_positions = np_b\<rparr>
          [''key''] ''inner'' = Inr r
        \<and> data_features r = [''key'', ''v1'', ''v2'']
        \<and> data_values r = [[''k'', ''1'', ''9''], [''k'', ''2'', ''9'']])"
  apply (rule conjI)
  subgoal
    apply (simp add: merge_def find_column_index_def)
    apply (simp add: update_stats_after_modification_def Let_def empty_frame_def)
    apply (simp add: inner_rows_def right_cells_def)
    done
  subgoal
    apply (simp add: merge_on_def find_column_index_def)
    apply (simp add: update_stats_after_modification_def Let_def empty_frame_def)
    apply (simp add: row_key_def)
    apply (simp add: right_cells_def)
    done
  done

section \<open>Properties of the statistics refresh\<close>

lemma count_cell_lengths:
  "length (fst (count_cell i row col s)) = length (fst s)
   \<and> length (snd (count_cell i row col s)) = length (snd s)"
  by (simp add: count_cell_def)

lemma count_cell_tally:
  assumes "col < length (fst s)" and "col < length (snd s)"
    and "c < length (fst s)" and "c < length (snd s)"
  shows "tally (count_cell i row col s) c = tally s c + (if c = col then 1 else 0)"
  using assms by (simp add: count_cell_def tally_def nth_list_update)

lemma fold_count_cell:
  assumes "m \<le> length (fst s)" and "length (snd s) = length (fst s)" and "c < length (fst s)"
  shows "length (fst (fold (count_cell i row) [0..<m] s)) = length (fst s)
    \<and> length (snd (fold (count_cell i row) [0..<m] s)) = length (fst s)
    \<and> tally (fold (count_cell i row) [0..<m] s) c = tally s c + (if c < m then 1 else 0)"
  using assms
proof (induction m)
  case 0
  then show ?case by simp
next
  case (Suc m)
  let ?s' = "fold (count_cell i row) [0..<m] s"
  from Suc have ih: "length (fst ?s') = length (fst s)" "length (snd ?s') = length (fst s)"
    "tally ?s' c = tally s c + (if c < m then 1 else 0)"
    by simp_all
  have step: "fold (count_cell i row) [0..<Suc m] s = count_cell i row m ?s'"
    by simp
  have "tally (count_cell i row m ?s') c = tally ?s' c + (if c = m then 1 else 0)"
    using Suc.prems ih by (intro count_cell_tally) simp_all
  with ih show ?case
    unfolding step by (auto simp: count_cell_lengths)
qed

lemma count_row_tally:
  assumes "length (fst s) = column_count" and "length (snd s) = column_count"
    and "c < column_count"
  shows "length (fst (count_row column_count i row s)) = column_count
    \<and> length (snd (count_row column_count i row s)) = column_count
    \<and> tally (count_row column_count i row s) c = tally s c + (if c < length row then 1 else 0)"
  using fold_count_cell [of "min column_count (length row)" s c i row] assms
  by (simp add: count_row_def)

lemma count_rows_tally:
  assumes "length (fst s) = column_count" and "length (snd s) = column_count"
    and "c < column_count"
  shows "tally (count_rows column_count i rows s) c
         = tally s c + length (filter (\<lambda>row. c < length row) rows)"
  using assms
proof (induction rows arbitrary: i s)
  case Nil
  then show ?case by simp
next
  case (Cons row rows)
  from count_row_tally [OF Cons.prems, of i row]
  have l: "length (fst (count_row column_count i row s)) = column_count"
    "length (snd (count_row column_count i row s)) = column_count"
    and t: "tally (count_row column_count i row s) c = tally s c + (if c < length row then 1 else 0)"
    by simp_all
  from Cons.IH [OF l Cons.prems(3), of "Suc i"] t show ?case
    by simp
qed

text \<open>
  After a refresh, the non-null count of a column plus the number of its recorded null
  positions is the number of rows that have a cell in that column. It is the number of
  rows when no row is shorter than the column list.
\<close>

lemma refreshed_tally:
  assumes "c < length (data_features t)"
  shows "non_null_counts (update_stats_after_modification t) ! c
         + length (null_positions (update_stats_after_modification t) ! c)
         = length (filter (\<lambda>row. c < length row) (data_values t))"
proof -
  let ?n = "length (data_features t)"
  have "tally (count_rows ?n 0 (data_values t) (replicate ?n 0, replicate ?n [])) c
        = tally (replicate ?n 0, replicate ?n []) c
          + length (filter (\<lambda>row. c < length row) (data_values t))"
    using assms by (intro count_rows_tally) simp_all
  then show ?thesis
    using assms by (simp add: update_stats_after_modification_def Let_def tally_def)
qed

theorem refreshed_tally_witness:
  "non_null_counts (update_stats_after_modification
      \<lparr>data_features = [''a'', ''b''], data_values = [[''x''], [''y'', '''']],
       non_null_counts = [], column_types = [STRING_type, INT_type], null_positions = []\<rparr>) ! 1
   + length (null_positions (update_stats_after_modification
      \<lparr>data_features = [''a'', ''b''], data_values = [[''x''], [''y'', '''']],
       non_null_counts = [], column_types = [STRING_type, INT_type], null_positions = []\<rparr>) ! 1)
   = 1"
  using refreshed_tally [of 1
      "\<lparr>data_features = [''a'', ''b''], data_values = [[''x''], [''y'', '''']],
        non_null_counts = [], column_types = [STRING_type, INT_type], null_positions = []\<rparr>"]
  by simp

text \<open>
  Claim C1 says that after a refresh \<open>non_null_counts[c] + null_positions[c].size()\<close> is
  the number of rows also when rows are shorter than the column list. The table below
  has the columns a, b and the single row [x]: the refresh never visits column b of that
  row, so column b ends with no non-null cell and no null position, while the table has
  one row.
\<close>

theorem refresh_skips_missing_cells:
  "non_null_counts (update_stats_after_modification
      \<lparr>data_features = [''a'', ''b''], data_values = [[''x'']], non_null_counts = [],
       column_types = [STRING_type, INT_type], null_positions = []\<rparr>) = [1, 0]
   \<and> null_positions (update_stats_after_modification
      \<lparr>data_features = [''a'', ''b''], data_values = [[''x'']], non_null_counts = [],
       column_types = [STRING_type, INT_type], null_positions = []\<rparr>) = [[], []]
   \<and> length (data_values (update_stats_after_modification
      \<lparr>data_features = [''a'', ''b''], data_values = [[''x'']], non_null_counts = [],
       column_types = [STRING_type, INT_type], null_positions = []\<rparr>)) = 1"
  by (simp add: update_stats_after_modification_def count_row_def count_cell_def)

section \<open>Properties of \<open>groupby\<close>\<close>

lemma group_rows_Nil: "group_rows [] = {#}"
  by (simp add: group_rows_def)

lemma group_rows_map_apply:
  assumes "data_values fresh = []"
  shows "group_rows (map_apply k (push_row row) fresh m) = group_rows m + {#row#}"
  using assms by (induction m) (auto simp: group_rows_def push_row_def)

lemma update_stats_data_values:
  "data_values (update_stats_after_modification g) = data_values g"
  by (simp add: update_stats_after_modification_def Let_def)

lemma group_rows_refresh: "group_rows (refresh_groups groups) = group_rows groups"
proof -
  have "map (\<lambda>(k, g). mset (data_values g)) (refresh_groups groups)
        = map (\<lambda>(k, g). mset (data_values g)) groups"
    by (induction groups) (auto simp: refresh_groups_def update_stats_data_values)
  then show ?thesis by (simp add: group_rows_def)
qed

lemma new_group_empty: "data_values (new_group t) = []"
  by (simp add: new_group_def empty_frame_def)

lemma group_rows_fold_multi:
  "group_rows (fold (\<lambda>row groups. map_apply (key row) (push_row row) (new_group t) groups) rows m)
   = group_rows m + mset rows"
  by (induction rows arbitrary: m) (simp_all add: group_rows_map_apply new_group_empty)

lemma group_rows_fold_single:
  "group_rows (fold (\<lambda>row groups.
       if col_idx < length row
       then map_apply (row ! col_idx) (push_row row) (new_group t) groups
       else groups) rows m)
   = group_rows m + mset (filter (\<lambda>row. col_idx < length row) rows)"
  by (induction rows arbitrary: m) (simp_all add: group_rows_map_apply new_group_empty)

text \<open>
  The groups of the overload with a list of key columns partition the rows of the
  table: the multiset union of their rows is the multiset of the rows of the table.
\<close>

lemma groupby_multi_partition:
  assumes "groupby_multi t col_names = Inr groups"
  shows "group_rows groups = mset (data_values t)"
  using assms
  by (auto simp: groupby_multi_def group_rows_refresh group_rows_fold_multi group_rows_Nil
      split: sum.splits)

text \<open>
  The groups of the overload with one key column hold the rows that have a cell in the
  key column, and no other row.
\<close>

lemma groupby_single_rows:
  assumes "groupby t col_name = Inr groups" and "find_column_index t col_name = Inr col_idx"
  shows "group_rows groups = mset (filter (\<lambda>row. col_idx < length row) (data_values t))"
  using assms
  by (auto simp: groupby_def group_rows_refresh group_rows_fold_single group_rows_Nil
      split: sum.splits)

theorem groupby_multi_partition_witness:
  "\<exists>groups. groupby_multi
       \<lparr>data_features = [''a'', ''b''], data_values = [[''x''], [''y'', ''k''], [''x'', ''k'']],
        non_null_counts = [3, 2], column_types = [STRING_type, STRING_type],
        null_positions = [[], []]\<rparr> [''b''] = Inr groups
     \<and> map fst groups = [[''''], [''k'']]
     \<and> group_rows groups = {#[''x''], [''y'', ''k''], [''x'', ''k'']#}"
proof -
  let ?t = "\<lparr>data_features = [''a'', ''b''], data_values = [[''x''], [''y'', ''k''], [''x'', ''k'']],
        non_null_counts = [3, 2], column_types = [STRING_type, STRING_type],
        null_positions = [[], []]\<rparr>"
  have "\<exists>groups. groupby_multi ?t [''b''] = Inr groups \<and> map fst groups = [[''''], [''k'']]"
    apply (simp add: groupby_multi_def find_column_index_def row_key_def)
    apply (simp add: refresh_groups_def)
    done
  then obtain groups where g: "groupby_multi ?t [''b''] = Inr groups"
    "map fst groups = [[''''], [''k'']]"
    by (elim exE conjE)
  have "group_rows groups = mset (data_values ?t)"
    using g(1) by (rule groupby_multi_partition)
  then have "group_rows groups = {#[''x''], [''y'', ''k''], [''x'', ''k'']#}"
    by simp
  with g show ?thesis
    by (intro exI [of _ groups] conjI)
qed

theorem groupby_single_rows_witness:
  "\<exists>groups. groupby
       \<lparr>data_features = [''a'', ''b''], data_values = [[''x''], [''y'', ''k''], [''x'', ''k'']],
        non_null_counts = [3, 2], column_types = [STRING_type, STRING_type],
        null_positions = [[], []]\<rparr> ''b'' = Inr groups
     \<and> map fst groups = [''k'']
     \<and> group_rows groups = {#[''y'', ''k''], [''x'', ''k'']#}"
proof -
  let ?t = "\<lparr>data_features = [''a'', ''b''], data_values = [[''x''], [''y'', ''k''], [''x'', ''k'']],
        non_null_counts = [3, 2], column_types = [STRING_type, STRING_type],
        null_positions = [[], []]\<rparr>"
  have idx: "find_column_index ?t ''b'' = Inr 1"
    by (simp add: find_column_index_def)
  have "\<exists>groups. groupby ?t ''b'' = Inr groups \<and> map fst groups = [''k'']"
    apply (simp add: groupby_def find_column_index_def)
    apply (simp add: refresh_groups_def)
    done
  then obtain groups where g: "groupby ?t ''b'' = Inr groups" "map fst groups = [''k'']"
    by (elim exE conjE)
  have "group_rows groups = mset (filter (\<lambda>row. 1 < length row) (data_values ?t))"
    using g(1) idx by (rule groupby_single_rows)
  then have "group_rows groups = {#[''y'', ''k''], [''x'', ''k'']#}"
    by simp
  with g show ?thesis
    by (intro exI [of _ groups] conjI)
qed

text \<open>
  Claim C2 says that \<open>groupby\<close> puts every row into exactly one group, also a row that is
  shorter than the position of the key column. The table below has the columns a, b and
  the single row [x]. Grouping by the column b returns no group at all, so the row is in
  none; grouping by the list [b] returns one group, of key [""], that holds the row.
\<close>

theorem groupby_drops_short_row:
  "groupby
     \<lparr>data_features = [''a'', ''b''], data_values = [[''x'']], non_null_counts = [1, 0],
      column_types = [STRING_type, INT_type], null_positions = [[], []]\<rparr> ''b'' = Inr []
   \<and> group_rows ([] :: (string \<times> vegaDataframe) list) = {#}
   \<and> (\<exists>g. groupby_multi
          \<lparr>data_features = [''a'', ''b''], data_values = [[''x'']], non_null_counts = [1, 0],
           column_types = [STRING_type, INT_type], null_positions = [[], []]\<rparr> [''b'']
            = Inr [([''''], g)]
        \<and> data_values g = [[''x'']])"
  apply (intro conjI)
    apply (simp add: groupby_def find_column_index_def refresh_groups_def)
   apply (simp add: group_rows_def)
  apply (simp add: groupby_multi_def find_column_index_def refresh_groups_def row_key_def
      update_stats_data_values push_row_def new_group_def empty_frame_def)
  done

section \<open>Properties of \<open>add_column\<close>\<close>






text \<open>
  The recorded types are a vector of their own, and \<open>add_column\<close> appends to it without
  looking at its length. When it is longer than the column list, the entry at the position
  of the new column is an old one: with the types INT, FLOAT recorded over the single
  column a, the column b added at position 1 has the recorded type FLOAT.
\<close>

lemma add_column_misaligned_types:
  "\<exists>r. add_column
          \<lparr>data_features = [''a''], data_values = [[''1'']], non_null_counts = [1],
           column_types = [INT_type, FLOAT_type], null_positions = [[]]\<rparr> ''b'' [''x''] = Inr r
        \<and> data_features r ! 1 = ''b''
        \<and> column_types r ! 1 = FLOAT_type"
  by (simp add: add_column_def add_column_cell_def enumerate_eq_zip)




section \<open>Properties of the statistics engine\<close>

text \<open>
  A scan works on the parsed values of the cells that are present, non-null and
  accepted by \<open>std::stod\<close>, in row order; the vector \<open>values\<close> is the list of them.
\<close>

lemma scan_Nil: "scan stod col_idx body [] init = init"
  by (simp add: scan_def)

lemma scan_Cons:
  "scan stod col_idx body (row # rows) init =
     scan stod col_idx body rows
       (case parsed_cell stod col_idx row of None \<Rightarrow> init | Some v \<Rightarrow> body v init)"
  by (simp add: scan_def)

lemma scan_eq_fold:
  "scan stod col_idx body rows init = fold body (List.map_filter (parsed_cell stod col_idx) rows) init"
  by (induction rows arbitrary: init) (simp_all add: scan_Nil scan_Cons map_filter_simps split: option.splits)

lemma valid_values_eq:
  "valid_values stod col_idx rows = List.map_filter (parsed_cell stod col_idx) rows"
proof -
  have "fold (\<lambda>v values. values @ [v]) vs acc = acc @ vs" for vs acc :: "double list"
    by (induction vs arbitrary: acc) simp_all
  then show ?thesis by (simp add: valid_values_def scan_eq_fold)
qed


lemma fold_found:
  "fold (\<lambda>v (best, found). (f best v, True)) vs (b, fl)
   = (fold (\<lambda>v best. f best v) vs b, fl \<or> vs \<noteq> [])"
  by (induction vs arbitrary: b fl) simp_all



lemma min_col_eq:
  assumes "numeric_column t col_name = Inr i"
    and "vs = List.map_filter (parsed_cell stod i) (data_values t)"
  shows "min_col stod t col_name
         = (if vs = [] then Inl StatisticalError
            else Inr (fold (\<lambda>v best. std_min best v) vs (Fin DBL_MAX)))"
  using assms by (simp add: min_col_def scan_eq_fold fold_found)

lemma max_col_eq:
  assumes "numeric_column t col_name = Inr i"
    and "vs = List.map_filter (parsed_cell stod i) (data_values t)"
  shows "max_col stod t col_name
         = (if vs = [] then Inl StatisticalError
            else Inr (fold (\<lambda>v best. std_max best v) vs (Fin (- DBL_MAX))))"
  using assms by (simp add: max_col_def scan_eq_fold fold_found)




section \<open>Properties of \<open>quantile\<close>, \<open>min\<close> and \<open>max\<close>\<close>

text \<open>On finite values the sort of the model is the sort of the reals.\<close>

lemma dinsert_Fin: "dinsert (Fin x) (map Fin ys) = map Fin (insort x ys)"
  by (induction ys) auto

lemma dsort_Fin: "dsort (map Fin xs) = map Fin (sort xs)"
proof -
  have "foldr dinsert (map Fin xs) [] = map Fin (foldr insort xs [])"
    by (induction xs) (simp_all add: dinsert_Fin)
  then show ?thesis by (simp add: dsort_def sort_key_def)
qed

lemma sorted_first_Min:
  fixes ys :: "real list"
  assumes "sorted ys" and "ys \<noteq> []"
  shows "ys ! 0 = Min (set ys)"
proof -
  from assms(2) obtain y ys' where ys: "ys = y # ys'" by (cases ys) auto
  with assms(1) have "\<forall>z \<in> set ys'. y \<le> z" by simp
  then have "Min (set (y # ys')) = y"
    by (intro Min_eqI) auto
  with ys show ?thesis by simp
qed

lemma sorted_last_Max:
  fixes ys :: "real list"
  assumes "sorted ys" and "ys \<noteq> []"
  shows "ys ! (length ys - 1) = Max (set ys)"
proof -
  have "Max (set ys) = ys ! (length ys - 1)"
  proof (rule Max_eqI)
    fix z assume "z \<in> set ys"
    then obtain k where k: "k < length ys" "z = ys ! k"
      by (auto simp: in_set_conv_nth)
    then have "ys ! k \<le> ys ! (length ys - 1)"
      using assms(1) by (intro sorted_nth_mono) auto
    with k show "z \<le> ys ! (length ys - 1)" by simp
  next
    show "ys ! (length ys - 1) \<in> set ys"
      using assms(2) by simp
  qed simp
  then show ?thesis by simp
qed

lemma sort_not_Nil:
  fixes xs :: "real list"
  shows "xs \<noteq> [] \<Longrightarrow> sort xs \<noteq> []"
  by (metis length_0_conv length_sort)

lemma sort_nth_0:
  fixes xs :: "real list"
  shows "xs \<noteq> [] \<Longrightarrow> sort xs ! 0 = Min (set xs)"
  using sorted_first_Min [of "sort xs"] by (simp add: sort_not_Nil)

lemma sort_nth_last:
  fixes xs :: "real list"
  shows "xs \<noteq> [] \<Longrightarrow> sort xs ! (length xs - 1) = Max (set xs)"
  using sorted_last_Max [of "sort xs"] by (simp add: sort_not_Nil)

lemma fold_std_min_Fin:
  "fold (\<lambda>v best. std_min best v) (map Fin xs) (Fin b) = Fin (fold min xs b)"
  by (induction xs arbitrary: b) (auto simp: std_min_def min_def)

lemma fold_std_max_Fin:
  "fold (\<lambda>v best. std_max best v) (map Fin xs) (Fin b) = Fin (fold max xs b)"
  by (induction xs arbitrary: b) (auto simp: std_max_def max_def)

lemma fold_min_bound:
  fixes b :: real
  assumes "xs \<noteq> []" and "\<forall>x \<in> set xs. x \<le> b"
  shows "fold min xs b = Min (set xs)"
proof -
  have "fold min xs b = Min (insert b (set xs))"
    by (simp add: Min.set_eq_fold [symmetric])
  also have "\<dots> = min b (Min (set xs))"
    using assms(1) by simp
  also have "\<dots> = Min (set xs)"
  proof -
    have "Min (set xs) \<in> set xs" using assms(1) by simp
    with assms(2) have "Min (set xs) \<le> b" by blast
    then show ?thesis by (simp add: min_def)
  qed
  finally show ?thesis .
qed

lemma fold_max_bound:
  fixes b :: real
  assumes "xs \<noteq> []" and "\<forall>x \<in> set xs. b \<le> x"
  shows "fold max xs b = Max (set xs)"
proof -
  have "fold max xs b = Max (insert b (set xs))"
    by (simp add: Max.set_eq_fold [symmetric])
  also have "\<dots> = max b (Max (set xs))"
    using assms(1) by simp
  also have "\<dots> = Max (set xs)"
  proof -
    have "Max (set xs) \<in> set xs" using assms(1) by simp
    with assms(2) have "b \<le> Max (set xs)" by blast
    then show ?thesis by (simp add: max_def)
  qed
  finally show ?thesis .
qed

text \<open>
  When every valid value of a numeric column is a finite double, that is a finite value
  between \<open>lowest()\<close> and \<open>max()\<close>, the quantile 0 is the minimum and the quantile 1 is the
  maximum of the column.
\<close>

lemma quantile_ends_finite:
  assumes nc: "numeric_column t col_name = Inr i"
    and vs: "List.map_filter (parsed_cell stod i) (data_values t) = map Fin xs"
    and ne: "xs \<noteq> []"
    and fin: "\<forall>x \<in> set xs. - DBL_MAX \<le> x \<and> x \<le> DBL_MAX"
  shows "quantile stod t col_name [Fin 0] = Inr [Fin (Min (set xs))]
       \<and> min_col stod t col_name = Inr (Fin (Min (set xs)))
       \<and> quantile stod t col_name [Fin 1] = Inr [Fin (Max (set xs))]
       \<and> max_col stod t col_name = Inr (Fin (Max (set xs)))"
proof -
  have nonan: "NaN \<notin> set (map Fin xs)" by auto
  have sorted_values: "ranges_sort (map Fin xs) = Inr (map Fin (sort xs))"
    using nonan by (simp add: ranges_sort_def dsort_Fin del: set_map)
  have lo: "quantile_at (map Fin (sort xs)) (Fin 0) = Inr (Fin (Min (set xs)))"
    using ne by (simp add: quantile_at_def sort_nth_0)
  have hi: "quantile_at (map Fin (sort xs)) (Fin 1) = Inr (Fin (Max (set xs)))"
    using ne sort_nth_last [of xs] by (simp add: quantile_at_def)
  have q: "quantile stod t col_name q = quantile_loop (map Fin (sort xs)) q" for q
    using nc ne by (simp add: quantile_def valid_values_eq vs sorted_values)
  have mn: "min_col stod t col_name = Inr (Fin (Min (set xs)))"
    using ne fin
    by (simp add: min_col_eq [OF nc vs [symmetric]] fold_std_min_Fin fold_min_bound)
  have mx: "max_col stod t col_name = Inr (Fin (Max (set xs)))"
    using ne fin
    by (simp add: max_col_eq [OF nc vs [symmetric]] fold_std_max_Fin fold_max_bound)
  from lo hi mn mx show ?thesis by (simp add: q)
qed

theorem quantile_ends_finite_witness:
  "quantile plain_stod
     \<lparr>data_features = [''x''], data_values = [[''3''], [''1''], [''''], [''2'']],
      non_null_counts = [3], column_types = [INT_type], null_positions = [[2]]\<rparr> ''x'' [Fin 0]
   = Inr [Fin 1]
   \<and> min_col plain_stod
     \<lparr>data_features = [''x''], data_values = [[''3''], [''1''], [''''], [''2'']],
      non_null_counts = [3], column_types = [INT_type], null_positions = [[2]]\<rparr> ''x''
   = Inr (Fin 1)
   \<and> quantile plain_stod
     \<lparr>data_features = [''x''], data_values = [[''3''], [''1''], [''''], [''2'']],
      non_null_counts = [3], column_types = [INT_type], null_positions = [[2]]\<rparr> ''x'' [Fin 1]
   = Inr [Fin 3]
   \<and> max_col plain_stod
     \<lparr>data_features = [''x''], data_values = [[''3''], [''1''], [''''], [''2'']],
      non_null_counts = [3], column_types = [INT_type], null_positions = [[2]]\<rparr> ''x''
   = Inr (Fin 3)"
proof -
  let ?t = "\<lparr>data_features = [''x''], data_values = [[''3''], [''1''], [''''], [''2'']],
      non_null_counts = [3], column_types = [INT_type], null_positions = [[2]]\<rparr>"
  have nc: "numeric_column ?t ''x'' = Inr 0"
    by (simp add: numeric_column_def find_column_index_def)
  have vs: "List.map_filter (parsed_cell plain_stod 0) (data_values ?t) = map Fin [3, 1, 2]"
    by (simp add: map_filter_simps parsed_cell_def plain_stod_def decimal_value_def digit_of_def)
  have ne: "[3, 1, 2 :: real] \<noteq> []"
    by simp
  have fin: "\<forall>x \<in> set [3, 1, 2 :: real]. - DBL_MAX \<le> x \<and> x \<le> DBL_MAX"
    by (simp add: DBL_MAX_def)
  from quantile_ends_finite [OF nc vs ne fin] show ?thesis
    by simp
qed

text \<open>
  Claim C6 says that \<open>quantile(col, [0.0])\<close> is \<open>min(col)\<close> and \<open>quantile(col, [1.0])\<close> is
  \<open>max(col)\<close> for every non-STRING column with a valid value. \<open>min\<close> starts from
  \<open>numeric_limits<double>::max()\<close> and \<open>max\<close> from \<open>lowest()\<close>, which are not the
  infinities. The table with the INT column x and the cell 1, divided by the table with
  the cell 0, is the table with the cell inf, still of type INT. On it \<open>std::stod\<close> gives
  the positive infinity: the quantile 0 is the infinity and \<open>min\<close> is the largest finite
  double. With the cell -inf, the quantile 1 is the negative infinity and \<open>max\<close> is the
  lowest finite double.
\<close>

theorem min_differs_from_quantile_on_infinity:
  "divide plain_stod to_string
     \<lparr>data_features = [''x''], data_values = [[''1'']], non_null_counts = [1],
      column_types = [INT_type], null_positions = [[]]\<rparr>
     \<lparr>data_features = [''x''], data_values = [[''0'']], non_null_counts = [1],
      column_types = [INT_type], null_positions = [[]]\<rparr>
   = Inr \<lparr>data_features = [''x''], data_values = [[''inf'']], non_null_counts = [1],
          column_types = [INT_type], null_positions = [[]]\<rparr>
   \<and> quantile plain_stod
       \<lparr>data_features = [''x''], data_values = [[''inf'']], non_null_counts = [1],
        column_types = [INT_type], null_positions = [[]]\<rparr> ''x'' [Fin 0] = Inr [PosInf]
   \<and> min_col plain_stod
       \<lparr>data_features = [''x''], data_values = [[''inf'']], non_null_counts = [1],
        column_types = [INT_type], null_positions = [[]]\<rparr> ''x'' = Inr (Fin DBL_MAX)
   \<and> quantile plain_stod
       \<lparr>data_features = [''x''], data_values = [[''-inf'']], non_null_counts = [1],
        column_types = [INT_type], null_positions = [[]]\<rparr> ''x'' [Fin 1] = Inr [NegInf]
   \<and> max_col plain_stod
       \<lparr>data_features = [''x''], data_values = [[''-inf'']], non_null_counts = [1],
        column_types = [INT_type], null_positions = [[]]\<rparr> ''x'' = Inr (Fin (- DBL_MAX))"
  apply (intro conjI)
      apply (simp add: divide_def shape_def divide_cell_def both_numeric_def safe_stod_def
        plain_stod_def decimal_value_def digit_of_def)
     apply (simp add: quantile_def numeric_column_def find_column_index_def valid_values_def
        scan_def parsed_cell_def plain_stod_def ranges_sort_def dsort_def quantile_at_def)
    apply (simp add: min_col_def numeric_column_def find_column_index_def scan_def
        parsed_cell_def plain_stod_def std_min_def)
   apply (simp add: quantile_def numeric_column_def find_column_index_def valid_values_def
        scan_def parsed_cell_def plain_stod_def ranges_sort_def dsort_def quantile_at_def)
  apply (simp add: max_col_def numeric_column_def find_column_index_def scan_def
        parsed_cell_def plain_stod_def std_max_def)
  done

section \<open>Properties of the duplicate handling\<close>

lemma find_pos_Some: "x \<in> set xs \<Longrightarrow> \<exists>i. find_pos xs x = Some i"
  by (induction xs) auto

lemma find_column_indices_ok:
  "set names \<subseteq> set (data_features t) \<Longrightarrow> \<exists>is. find_column_indices t names = Inr is"
proof (induction names)
  case Nil
  then show ?case by simp
next
  case (Cons name names)
  from Cons.prems have "name \<in> set (data_features t)" by simp
  from find_pos_Some [OF this] obtain i where i: "find_pos (data_features t) name = Some i" ..
  from Cons.prems have "set names \<subseteq> set (data_features t)" by simp
  from Cons.IH [OF this] obtain "is" where "is": "find_column_indices t names = Inr is" ..
  from i "is" show ?case by (simp add: find_column_index_def)
qed

lemma check_columns_of_ok:
  "set subset_names \<subseteq> set (data_features t) \<Longrightarrow> \<exists>cs. check_columns_of t subset_names = Inr cs"
  using find_column_indices_ok [of subset_names t] by (simp add: check_columns_of_def)

lemma find_column_index_cong:
  "data_features r = data_features t \<Longrightarrow> find_column_index r name = find_column_index t name"
  by (simp add: find_column_index_def)

lemma find_column_indices_cong:
  assumes "data_features r = data_features t"
  shows "find_column_indices r names = find_column_indices t names"
proof (induction names)
  case Nil
  show ?case by simp
next
  case (Cons name names)
  show ?case
    unfolding find_column_indices.simps Cons.IH find_column_index_cong [OF assms] ..
qed

lemma check_columns_of_cong:
  "data_features r = data_features t \<Longrightarrow> check_columns_of r names = check_columns_of t names"
  using find_column_indices_cong [of r t names] by (simp add: check_columns_of_def)

lemma length_dup_scan: "length (dup_scan seen keys) = length keys"
  by (induction keys arbitrary: seen) simp_all

text \<open>The rows that the marks keep: those whose mark is \<open>false\<close>.\<close>

lemma kept_rescan:
  "dup_scan seen
     (map f (map fst (filter (\<lambda>(row, dup). \<not> dup) (zip rows (dup_scan seen (map f rows))))))
   = replicate
       (length (filter (\<lambda>(row, dup). \<not> dup) (zip rows (dup_scan seen (map f rows))))) False"
proof (induction rows arbitrary: seen)
  case Nil
  then show ?case by simp
next
  case (Cons row rows)
  show ?case
  proof (cases "f row \<in> seen")
    case True
    then show ?thesis using Cons.IH [of seen] by simp
  next
    case False
    then show ?thesis using Cons.IH [of "insert (f row) seen"] by simp
  qed
qed

lemma keep_all:
  "map fst (filter (\<lambda>(row, dup). \<not> dup) (zip rows (replicate (length rows) False))) = rows"
  by (induction rows) simp_all

lemma marked_plus_kept:
  "length rows = length is_duplicate \<Longrightarrow>
   length (filter (\<lambda>dup. dup) is_duplicate) + length (filter (\<lambda>(row, dup). \<not> dup) (zip rows is_duplicate))
   = length rows"
  by (induction rows is_duplicate rule: list_induct2) simp_all

text \<open>
  Claim C7. For every table and every list of column names of the table (the empty list
  standing for all columns), \<open>drop_duplicates(subset, true)\<close> returns a table, applying it
  to that table returns the same table again, in all five members, and the number of
  rows that \<open>duplicated(subset, true)\<close> marks is the number of rows of the table minus
  the number of rows of the result.
\<close>

theorem drop_duplicates_idempotent:
  assumes "set subset_names \<subseteq> set (data_features t)"
  shows "\<exists>r is_duplicate. drop_duplicates t subset_names True = Inr r
           \<and> drop_duplicates r subset_names True = Inr r
           \<and> duplicated t subset_names True = Inr is_duplicate
           \<and> length is_duplicate = length (data_values t)
           \<and> length (filter (\<lambda>dup. dup) is_duplicate)
               = length (data_values t) - length (data_values r)"
proof -
  from check_columns_of_ok [OF assms]
  obtain cs where cs: "check_columns_of t subset_names = Inr cs" ..
  define is_duplicate where "is_duplicate = dup_scan {} (map (row_key cs) (data_values t))"
  define kept where "kept = map fst (filter (\<lambda>(row, dup). \<not> dup) (zip (data_values t) is_duplicate))"
  define r where "r = update_stats_after_modification
     (empty_frame\<lparr>data_features := data_features t, column_types := column_types t,
                  data_values := kept\<rparr>)"
  have dup: "duplicated t subset_names True = Inr is_duplicate"
    using cs by (simp add: duplicated_def is_duplicate_def)
  have drop: "drop_duplicates t subset_names True = Inr r"
    using dup by (simp add: drop_duplicates_def r_def kept_def)
  have r_fields: "data_features r = data_features t" "column_types r = column_types t"
    "data_values r = kept"
    by (simp_all add: r_def update_stats_after_modification_def Let_def)
  have len: "length is_duplicate = length (data_values t)"
    by (simp add: is_duplicate_def length_dup_scan)
  have cs': "check_columns_of r subset_names = Inr cs"
    using cs check_columns_of_cong [OF r_fields(1), of subset_names] by simp
  have "dup_scan {} (map (row_key cs) kept) = replicate (length kept) False"
    unfolding kept_def is_duplicate_def using kept_rescan [of "{}" "row_key cs" "data_values t"]
    by simp
  then have dup': "duplicated r subset_names True = Inr (replicate (length kept) False)"
    using cs' by (simp add: duplicated_def r_fields)
  have again: "drop_duplicates r subset_names True = Inr r"
    using dup' by (simp add: drop_duplicates_def r_fields keep_all) (simp add: r_def)
  have "length (filter (\<lambda>dup. dup) is_duplicate) + length kept = length (data_values t)"
    using marked_plus_kept [OF len [symmetric]] by (simp add: kept_def)
  then have count: "length (filter (\<lambda>dup. dup) is_duplicate) = length (data_values t) - length (data_values r)"
    by (simp add: r_fields)
  from drop again dup len count show ?thesis by blast
qed

theorem drop_duplicates_idempotent_witness:
  "\<exists>r. drop_duplicates
        \<lparr>data_features = [''k'', ''v''],
         data_values = [[''a'', ''1''], [''b'', ''2''], [''a'', ''3''], [''b'']],
         non_null_counts = [4, 3], column_types = [STRING_type, INT_type],
         null_positions = [[], []]\<rparr> [''k''] True = Inr r
      \<and> drop_duplicates r [''k''] True = Inr r
      \<and> data_values r = [[''a'', ''1''], [''b'', ''2'']]
      \<and> duplicated
        \<lparr>data_features = [''k'', ''v''],
         data_values = [[''a'', ''1''], [''b'', ''2''], [''a'', ''3''], [''b'']],
         non_null_counts = [4, 3], column_types = [STRING_type, INT_type],
         null_positions = [[], []]\<rparr> [''k''] True = Inr [False, False, True, True]"
proof -
  let ?t = "\<lparr>data_features = [''k'', ''v''],
         data_values = [[''a'', ''1''], [''b'', ''2''], [''a'', ''3''], [''b'']],
         non_null_counts = [4, 3], column_types = [STRING_type, INT_type],
         null_positions = [[], []]\<rparr>"
  have names: "set [''k''] \<subseteq> set (data_features ?t)"
    by simp
  have marks: "duplicated ?t [''k''] True = Inr [False, False, True, True]"
    by (simp add: duplicated_def check_columns_of_def find_column_index_def row_key_def)
  have rows: "\<And>r. drop_duplicates ?t [''k''] True = Inr r
              \<Longrightarrow> data_values r = [[''a'', ''1''], [''b'', ''2'']]"
    by (auto simp: drop_duplicates_def marks update_stats_data_values empty_frame_def)
  from drop_duplicates_idempotent [OF names] obtain r where
    "drop_duplicates ?t [''k''] True = Inr r" "drop_duplicates r [''k''] True = Inr r"
    by blast
  with rows [OF this(1)] marks show ?thesis by blast
qed

section \<open>Properties of \<open>divide\<close>\<close>

lemma collect_map_Inr:
  assumes "\<forall>x \<in> set xs. f x = Inr (g x)"
  shows "collect (map f xs) = Inr (map g xs)"
  using assms by (induction xs) simp_all

text \<open>
  Claim C8. \<open>divide\<close> fails with the SchemaError whenever the two tables differ in the
  number of rows or in the number of column names. When the shapes agree and both tables
  pass \<open>validate_dataframe\<close>, \<open>divide\<close> returns the left table with new cells: a cell of a
  column whose recorded type is STRING in either table, and a cell without a partner in
  the right row, is the cell of the left table; in a column that is STRING in neither
  table, a cell whose right-side value is 0 (parsed as 0, or not parsed at all, which
  \<open>safe_stod\<close> turns into 0) is the text "inf", and any other cell is the text of the
  quotient.
\<close>

theorem divide_cells:
  "(shape t \<noteq> shape other \<longrightarrow> divide stod to_string t other = Inl SchemaError)
   \<and> (shape t = shape other \<and> validate_dataframe t \<and> validate_dataframe other \<longrightarrow>
        (\<exists>r. divide stod to_string t other = Inr r
           \<and> data_features r = data_features t \<and> column_types r = column_types t
           \<and> length (data_values r) = length (data_values t)
           \<and> (\<forall>i < length (data_values t).
                 length (data_values r ! i) = length (data_values t ! i)
               \<and> (\<forall>j < length (data_values t ! i).
                    (column_types t ! j = STRING_type \<or> column_types other ! j = STRING_type
                       \<or> \<not> j < length (data_values other ! i)
                       \<longrightarrow> data_values r ! i ! j = data_values t ! i ! j)
                  \<and> (column_types t ! j \<noteq> STRING_type \<and> column_types other ! j \<noteq> STRING_type
                       \<and> j < length (data_values other ! i)
                       \<longrightarrow> data_values r ! i ! j
                           = (if safe_stod stod (data_values other ! i ! j) = Fin 0 then ''inf''
                              else to_string (ddiv (safe_stod stod (data_values t ! i ! j))
                                             (safe_stod stod (data_values other ! i ! j)))))))))"
proof (intro conjI impI)
  assume "shape t \<noteq> shape other"
  then show "divide stod to_string t other = Inl SchemaError"
    by (simp add: divide_def)
next
  assume wf: "shape t = shape other \<and> validate_dataframe t \<and> validate_dataframe other"
  define cell where "cell row other_row j =
      (if j < length other_row \<and> column_types t ! j \<noteq> STRING_type
          \<and> column_types other ! j \<noteq> STRING_type
       then (if safe_stod stod (other_row ! j) = Fin 0 then ''inf''
             else to_string (ddiv (safe_stod stod (row ! j)) (safe_stod stod (other_row ! j))))
       else row ! j)" for row other_row :: "string list" and j
  define new_row where "new_row = (\<lambda>(row, other_row). map (cell row other_row) [0..<length row])"
  from wf have rows: "length (data_values t) = length (data_values other)"
    and cols: "length (data_features t) = length (data_features other)"
    and types: "length (column_types t) = length (data_features t)"
      "length (column_types other) = length (data_features t)"
    and width: "\<forall>row \<in> set (data_values t). length row \<le> length (data_features t)"
    by (auto simp: shape_def validate_dataframe_def)
  have cell_ok: "divide_cell stod to_string t other row other_row j = Inr (cell row other_row j)"
    if "row \<in> set (data_values t)" and "j < length row" for row other_row j
  proof -
    from that width have "j < length (column_types t)" "j < length (column_types other)"
      using types by auto
    then show ?thesis
      by (simp add: divide_cell_def both_numeric_def cell_def)
  qed
  have row_ok: "collect (map (divide_cell stod to_string t other (fst p) (snd p)) [0..<length (fst p)])
                = Inr (new_row p)"
    if "p \<in> set (zip (data_values t) (data_values other))" for p
  proof -
    from that have "fst p \<in> set (data_values t)"
      by (metis in_set_zipE prod.collapse)
    then have "\<forall>j \<in> set [0..<length (fst p)].
        divide_cell stod to_string t other (fst p) (snd p) j = Inr (cell (fst p) (snd p) j)"
      using cell_ok by simp
    from collect_map_Inr [OF this] show ?thesis
      by (simp add: new_row_def case_prod_beta)
  qed
  have all_ok: "collect (map (\<lambda>(row, other_row).
                 collect (map (divide_cell stod to_string t other row other_row) [0..<length row]))
               (zip (data_values t) (data_values other)))
          = Inr (map new_row (zip (data_values t) (data_values other)))"
    using row_ok by (intro collect_map_Inr) (simp add: case_prod_beta)
  define r where "r = t\<lparr>data_values := map new_row (zip (data_values t) (data_values other))\<rparr>"
  have res: "divide stod to_string t other = Inr r"
    using wf all_ok by (simp add: divide_def r_def)
  have nth_row: "data_values r ! i
                 = map (cell (data_values t ! i) (data_values other ! i)) [0..<length (data_values t ! i)]"
    if "i < length (data_values t)" for i
    using that rows by (simp add: r_def new_row_def)
  have cells: "length (data_values r ! i) = length (data_values t ! i)
      \<and> (\<forall>j < length (data_values t ! i).
            (column_types t ! j = STRING_type \<or> column_types other ! j = STRING_type
               \<or> \<not> j < length (data_values other ! i)
               \<longrightarrow> data_values r ! i ! j = data_values t ! i ! j)
          \<and> (column_types t ! j \<noteq> STRING_type \<and> column_types other ! j \<noteq> STRING_type
               \<and> j < length (data_values other ! i)
               \<longrightarrow> data_values r ! i ! j
                   = (if safe_stod stod (data_values other ! i ! j) = Fin 0 then ''inf''
                      else to_string (ddiv (safe_stod stod (data_values t ! i ! j))
                                     (safe_stod stod (data_values other ! i ! j))))))"
    if "i < length (data_values t)" for i
    by (auto simp: nth_row [OF that] cell_def)
  have "data_features r = data_features t" "column_types r = column_types t"
    "length (data_values r) = length (data_values t)"
    using rows by (simp_all add: r_def)
  with res cells
  show "\<exists>r. divide stod to_string t other = Inr r
           \<and> data_features r = data_features t \<and> column_types r = column_types t
           \<and> length (data_values r) = length (data_values t)
           \<and> (\<forall>i < length (data_values t).
                 length (data_values r ! i) = length (data_values t ! i)
               \<and> (\<forall>j < length (data_values t ! i).
                    (column_types t ! j = STRING_type \<or> column_types other ! j = STRING_type
                       \<or> \<not> j < length (data_values other ! i)
                       \<longrightarrow> data_values r ! i ! j = data_values t ! i ! j)
                  \<and> (column_types t ! j \<noteq> STRING_type \<and> column_types other ! j \<noteq> STRING_type
                       \<and> j < length (data_values other ! i)
                       \<longrightarrow> data_values r ! i ! j
                           = (if safe_stod stod (data_values other ! i ! j) = Fin 0 then ''inf''
                              else to_string (ddiv (safe_stod stod (data_values t ! i ! j))
                                             (safe_stod stod (data_values other ! i ! j)))))))"
    by blast
qed
theorem divide_cells_witness:
  "divide plain_stod plain_to_string
     \<lparr>data_features = [''x'', ''s''], data_values = [[''6'', ''a''], [''1'', ''b''], [''5'']],
      non_null_counts = [3, 2], column_types = [INT_type, STRING_type],
      null_positions = [[], []]\<rparr>
     \<lparr>data_features = [''y'', ''u''], data_values = [[''3'', ''c''], [''0'', ''d''], []],
      non_null_counts = [2, 2], column_types = [FLOAT_type, STRING_type],
      null_positions = [[], []]\<rparr>
   = Inr \<lparr>data_features = [''x'', ''s''],
          data_values = [[''2.000000'', ''a''], [''inf'', ''b''], [''5'']],
          non_null_counts = [3, 2], column_types = [INT_type, STRING_type],
          null_positions = [[], []]\<rparr>
   \<and> divide plain_stod plain_to_string
     \<lparr>data_features = [''x'', ''s''], data_values = [[''6'', ''a''], [''1'', ''b''], [''5'']],
      non_null_counts = [3, 2], column_types = [INT_type, STRING_type],
      null_positions = [[], []]\<rparr>
     \<lparr>data_features = [''y''], data_values = [[''3''], [''0''], []],
      non_null_counts = [2], column_types = [FLOAT_type], null_positions = [[]]\<rparr>
   = Inl SchemaError"
proof -
  let ?t = "\<lparr>data_features = [''x'', ''s''], data_values = [[''6'', ''a''], [''1'', ''b''], [''5'']],
      non_null_counts = [3, 2], column_types = [INT_type, STRING_type],
      null_positions = [[], []]\<rparr>"
  let ?other = "\<lparr>data_features = [''y'', ''u''], data_values = [[''3'', ''c''], [''0'', ''d''], []],
      non_null_counts = [2, 2], column_types = [FLOAT_type, STRING_type],
      null_positions = [[], []]\<rparr>"
  let ?narrow = "\<lparr>data_features = [''y''], data_values = [[''3''], [''0''], []],
      non_null_counts = [2], column_types = [FLOAT_type], null_positions = [[]]\<rparr>"
  have same: "shape ?t = shape ?other \<and> validate_dataframe ?t \<and> validate_dataframe ?other"
    by (simp add: shape_def validate_dataframe_def)
  have differ: "shape ?t \<noteq> shape ?narrow"
    by (simp add: shape_def)
  have value_of: "divide plain_stod plain_to_string ?t ?other
      = Inr \<lparr>data_features = [''x'', ''s''],
          data_values = [[''2.000000'', ''a''], [''inf'', ''b''], [''5'']],
          non_null_counts = [3, 2], column_types = [INT_type, STRING_type],
          null_positions = [[], []]\<rparr>"
    by (simp add: divide_def shape_def divide_cell_def both_numeric_def safe_stod_def
        plain_stod_def decimal_value_def digit_of_def plain_to_string_def)
  from divide_cells [of ?t ?narrow plain_stod plain_to_string] differ
  have "divide plain_stod plain_to_string ?t ?narrow = Inl SchemaError"
    by blast
  moreover from divide_cells [of ?t ?other plain_stod plain_to_string] same
  have "\<exists>r. divide plain_stod plain_to_string ?t ?other = Inr r"
    by blast
  ultimately show ?thesis using value_of by simp
qed

section \<open>Properties of the comparisons\<close>

lemma negate_prefix:
  "k \<le> length row \<Longrightarrow>
   fold (\<lambda>j r. r[j := \<not> r ! j]) [0..<k] row = map Not (take k row) @ drop k row"
proof (induction k)
  case 0
  then show ?case by simp
next
  case (Suc k)
  then have k: "k < length row" by simp
  let ?done = "map Not (take k row) @ drop k row"
  have "fold (\<lambda>j r. r[j := \<not> r ! j]) [0..<Suc k] row = ?done[k := \<not> ?done ! k]"
    using Suc by simp
  also have "\<dots> = map Not (take (Suc k) row) @ drop (Suc k) row"
    using k by (intro nth_equalityI) (auto simp: nth_list_update nth_append less_Suc_eq)
  finally show ?case .
qed

lemma negate_row_eq: "negate_row row = map Not row"
  using negate_prefix [of "length row" row] by (simp add: negate_row_def)

lemma negate_all_eq: "negate_all result = map (map Not) result"
  by (simp add: negate_all_def negate_row_eq)

text \<open>
  Claim C9, as amended. \<open>ne\<close> fails as \<open>eq\<close> fails and otherwise returns the matrix of
  \<open>eq\<close> with every boolean negated; likewise \<open>gt\<close> negates the matrix of \<open>le\<close> and \<open>ge\<close>
  negates the matrix of \<open>lt\<close>. The assignment in the loops goes through the proxy
  reference of \<open>std::vector<bool>\<close> and changes the matrix that is returned. So for
  tables of the same shape a cell of \<open>ne\<close> is true exactly when the left cell has no
  partner in the right row or differs from it.
\<close>

theorem comparisons_negate:
  "ne t other = map_sum id (map (map Not)) (eq t other)
   \<and> gt stod t other = map_sum id (map (map Not)) (le stod t other)
   \<and> ge stod t other = map_sum id (map (map Not)) (lt stod t other)
   \<and> ne t other =
       (if shape t \<noteq> shape other then Inl SchemaError
        else Inr (map (\<lambda>(row, other_row).
                    map (\<lambda>j. \<not> (j < length other_row \<and> row ! j = other_row ! j))
                      [0..<length row])
                  (zip (data_values t) (data_values other))))"
proof (intro conjI)
  show "ne t other = map_sum id (map (map Not)) (eq t other)"
    by (cases "eq t other") (simp_all add: ne_def negate_all_eq)
  show "gt stod t other = map_sum id (map (map Not)) (le stod t other)"
    by (cases "le stod t other") (simp_all add: gt_def negate_all_eq)
  show "ge stod t other = map_sum id (map (map Not)) (lt stod t other)"
    by (cases "lt stod t other") (simp_all add: ge_def negate_all_eq)
  show "ne t other =
       (if shape t \<noteq> shape other then Inl SchemaError
        else Inr (map (\<lambda>(row, other_row).
                    map (\<lambda>j. \<not> (j < length other_row \<and> row ! j = other_row ! j))
                      [0..<length row])
                  (zip (data_values t) (data_values other))))"
    by (simp add: ne_def eq_def negate_all_eq case_prod_beta comp_def)
qed

text \<open>
  Claim C9 as stated fails. With the one-column table of type INT and the single cell 1
  on both sides, \<open>eq\<close> is [[true]] and \<open>ne\<close> is [[false]]; \<open>le\<close> is [[true]] and \<open>gt\<close> is
  [[false]]; \<open>lt\<close> is [[false]] and \<open>ge\<close> is [[true]].
\<close>

theorem comparisons_counterexample:
  "eq \<lparr>data_features = [''a''], data_values = [[''1'']], non_null_counts = [1],
        column_types = [INT_type], null_positions = [[]]\<rparr>
      \<lparr>data_features = [''a''], data_values = [[''1'']], non_null_counts = [1],
        column_types = [INT_type], null_positions = [[]]\<rparr> = Inr [[True]]
   \<and> ne \<lparr>data_features = [''a''], data_values = [[''1'']], non_null_counts = [1],
        column_types = [INT_type], null_positions = [[]]\<rparr>
      \<lparr>data_features = [''a''], data_values = [[''1'']], non_null_counts = [1],
        column_types = [INT_type], null_positions = [[]]\<rparr> = Inr [[False]]
   \<and> le plain_stod
      \<lparr>data_features = [''a''], data_values = [[''1'']], non_null_counts = [1],
        column_types = [INT_type], null_positions = [[]]\<rparr>
      \<lparr>data_features = [''a''], data_values = [[''1'']], non_null_counts = [1],
        column_types = [INT_type], null_positions = [[]]\<rparr> = Inr [[True]]
   \<and> gt plain_stod
      \<lparr>data_features = [''a''], data_values = [[''1'']], non_null_counts = [1],
        column_types = [INT_type], null_positions = [[]]\<rparr>
      \<lparr>data_features = [''a''], data_values = [[''1'']], non_null_counts = [1],
        column_types = [INT_type], null_positions = [[]]\<rparr> = Inr [[False]]
   \<and> lt plain_stod
      \<lparr>data_features = [''a''], data_values = [[''1'']], non_null_counts = [1],
        column_types = [INT_type], null_positions = [[]]\<rparr>
      \<lparr>data_features = [''a''], data_values = [[''1'']], non_null_counts = [1],
        column_types = [INT_type], null_positions = [[]]\<rparr> = Inr [[False]]
   \<and> ge plain_stod
      \<lparr>data_features = [''a''], data_values = [[''1'']], non_null_counts = [1],
        column_types = [INT_type], null_positions = [[]]\<rparr>
      \<lparr>data_features = [''a''], data_values = [[''1'']], non_null_counts = [1],
        column_types = [INT_type], null_positions = [[]]\<rparr> = Inr [[True]]"
proof -
  let ?t = "\<lparr>data_features = [''a''], data_values = [[''1'']], non_null_counts = [1],
        column_types = [INT_type], null_positions = [[]]\<rparr>"
  have e: "eq ?t ?t = Inr [[True]]"
    by (simp add: eq_def)
  have l: "lt plain_stod ?t ?t = Inr [[False]]"
    by (simp add: lt_def lt_cell_def both_numeric_def safe_stod_def plain_stod_def
        decimal_value_def digit_of_def)
  have el: "le plain_stod ?t ?t = Inr [[True]]"
    using e l by (simp add: le_def)
  show ?thesis
    using e l el by (simp add: ne_def gt_def ge_def negate_all_def negate_row_def)
qed

section \<open>Properties of \<open>sample\<close>\<close>

lemma int_cast_small:
  assumes "0 < n" and "n \<le> 2 ^ 31"
  shows "sint (word_of_int (int n - 1) :: 32 word) = int n - 1"
proof -
  have "- (2 ^ 31) \<le> int n - 1" "int n - 1 < 2 ^ 31"
    using assms by simp_all
  then have "signed_take_bit (LENGTH(32) - 1) (int n - 1) = int n - 1"
    by (intro signed_take_bit_int_eq_self) simp_all
  then show ?thesis
    unfolding sint_sbintrunc' .
qed

lemma uniform_int_range:
  assumes "a \<le> b"
  shows "a \<le> uniform_int a b entropy \<and> uniform_int a b entropy \<le> b"
proof -
  have "0 < nat (b - a + 1)" using assms by simp
  then have "entropy mod nat (b - a + 1) < nat (b - a + 1)" by simp
  then have "int (entropy mod nat (b - a + 1)) < b - a + 1" by linarith
  then show ?thesis by (simp add: uniform_int_def)
qed

text \<open>
  Claim C10, as amended. For a table of at least one and at most \<open>2\<^sup>3\<^sup>1\<close> rows,
  \<open>sample(n, true)\<close> constructs the distribution over \<open>[0, row_count - 1]\<close>, every drawn
  index is below the number of rows, and the call returns the \<open>n\<close> rows at the drawn
  indices, with the schema of the table.
\<close>

theorem sample_with_replacement_in_range:
  assumes "0 < length (data_values t)" and "length (data_values t) \<le> 2 ^ 31"
  shows "\<exists>r. sample draw shuffle t n True = Inr r
           \<and> data_features r = data_features t \<and> column_types r = column_types t
           \<and> length (data_values r) = n
           \<and> (\<forall>k < n.
                 nat (uniform_int 0 (int (length (data_values t)) - 1) (draw k))
                   < length (data_values t)
               \<and> data_values r ! k
                   = data_values t
                       ! nat (uniform_int 0 (int (length (data_values t)) - 1) (draw k)))"
proof -
  let ?size = "length (data_values t)"
  let ?idx = "\<lambda>k. nat (uniform_int 0 (int ?size - 1) (draw k))"
  have hi: "sint (word_of_int (int ?size - 1) :: 32 word) = int ?size - 1"
    using assms by (rule int_cast_small)
  have in_range: "?idx k < ?size" for k
    using uniform_int_range [of 0 "int ?size - 1" "draw k"] assms(1) by linarith
  then have "\<forall>k \<in> set [0..<n]. read_row (data_values t) (?idx k) = Inr (data_values t ! ?idx k)"
    by (simp add: read_row_def)
  from collect_map_Inr [OF this]
  have picked: "collect (map (\<lambda>k. read_row (data_values t) (?idx k)) [0..<n])
                = Inr (map (\<lambda>k. data_values t ! ?idx k) [0..<n])" .
  define r where "r = update_stats_after_modification
      (empty_frame\<lparr>data_features := data_features t, column_types := column_types t,
                   data_values := map (\<lambda>k. data_values t ! ?idx k) [0..<n]\<rparr>)"
  have "sample draw shuffle t n True = Inr r"
    unfolding sample_def hi Let_def
    using assms(1) picked by (simp add: r_def)
  moreover have "data_features r = data_features t" "column_types r = column_types t"
    "data_values r = map (\<lambda>k. data_values t ! ?idx k) [0..<n]"
    by (simp_all add: r_def update_stats_after_modification_def Let_def)
  ultimately show ?thesis
    using in_range by (intro exI [of _ r]) simp
qed

theorem sample_with_replacement_in_range_witness:
  "\<exists>r. sample id id
          \<lparr>data_features = [''a''], data_values = [[''x''], [''y'']], non_null_counts = [2],
           column_types = [STRING_type], null_positions = [[]]\<rparr> 3 True = Inr r
        \<and> data_values r = [[''x''], [''y''], [''x'']]"
proof -
  let ?t = "\<lparr>data_features = [''a''], data_values = [[''x''], [''y'']], non_null_counts = [2],
           column_types = [STRING_type], null_positions = [[]]\<rparr>"
  have "0 < length (data_values ?t)" "length (data_values ?t) \<le> 2 ^ 31"
    by simp_all
  from sample_with_replacement_in_range [OF this, of id id 3]
  obtain r where r: "sample id id ?t 3 True = Inr r" "length (data_values r) = 3"
    "\<forall>k < 3. data_values r ! k = data_values ?t ! nat (uniform_int 0 (int (length (data_values ?t)) - 1) (id k))"
    by auto
  from r(3) have "data_values r ! 0 = [''x'']" "data_values r ! 1 = [''y'']" "data_values r ! 2 = [''x'']"
    by (simp_all add: uniform_int_def)
  moreover have "data_values r = [data_values r ! 0, data_values r ! 1, data_values r ! 2]"
    using r(2) by (auto simp: numeral_3_eq_3 numeral_2_eq_2 length_Suc_conv)
  ultimately have "data_values r = [[''x''], [''y''], [''x'']]"
    by simp
  with r(1) show ?thesis by blast
qed

text \<open>
  Claim C10 as stated fails: one row is not enough. With \<open>2\<^sup>3\<^sup>1 + 1\<close> rows the upper
  bound \<open>data_values.size() - 1 = 2\<^sup>3\<^sup>1\<close> does not fit the \<open>int\<close> of
  \<open>std::uniform_int_distribution<>\<close>: the conversion gives \<open>-2\<^sup>3\<^sup>1\<close>, the distribution is
  constructed over \<open>(0, -2\<^sup>3\<^sup>1)\<close> against its precondition \<open>a \<le> b\<close>, and the draw has no
  defined result.
\<close>

theorem sample_counterexample:
  "0 < length (data_values
        \<lparr>data_features = [], data_values = replicate (2 ^ 31 + 1) [], non_null_counts = [],
         column_types = [], null_positions = []\<rparr>)
   \<and> sint (word_of_int (int (length (replicate (2 ^ 31 + 1) ([] :: string list))) - 1) :: 32 word)
       = - (2 ^ 31)
   \<and> sample id id
        \<lparr>data_features = [], data_values = replicate (2 ^ 31 + 1) [], non_null_counts = [],
         column_types = [], null_positions = []\<rparr> 1 True = Inl UndefinedBehaviour"
  by (simp add: sample_def)

end
